theory Spec2Isabelle
  imports Complex_Main "HOL-Library.Log_Nat" "HOL-Library.Product_Lexorder"
begin

section \<open>Common data\<close>

text \<open>
  Documents are identified by MongoDB ObjectIds. An ObjectId is modelled by its
  hexadecimal string, so that \<^verbatim>\<open>_id.toString()\<close> is the identity. A collection is
  the list of its documents. Record fields carry a short prefix of their model, because
  several schemas share field names (\<^verbatim>\<open>isActive\<close>, \<^verbatim>\<open>status\<close>, \<^verbatim>\<open>student\<close>).
\<close>

type_synonym objectId = string

text \<open>
  What a failed \<^verbatim>\<open>save()\<close> raises: a schema validator or a pre-save hook. Validation
  runs before the pre-save hooks of a schema, and these run in the order of their
  declaration. Several hooks call \<^verbatim>\<open>next(error)\<close> and then \<^verbatim>\<open>next()\<close> again: the
  first call decides, and the save fails.
\<close>

datatype save_error = ValidationError string | HookError string

text \<open>
  A schema string declared with \<^verbatim>\<open>trim: true\<close> is stored without its leading and
  trailing white space (here: space, tab, line feed, vertical tab, form feed, carriage
  return).
\<close>

definition is_space :: "char \<Rightarrow> bool" where
  "is_space c \<longleftrightarrow> c \<in> set [CHR '' '', CHR 0x09, CHR 0x0A, CHR 0x0B, CHR 0x0C, CHR 0x0D]"

definition trim :: "string \<Rightarrow> string" where
  "trim s = rev (dropWhile is_space (rev (dropWhile is_space s)))"

text \<open>An optional string is truthy when it is present and not empty.\<close>

fun truthy :: "string option \<Rightarrow> bool" where
  "truthy None = False"
| "truthy (Some s) = (s \<noteq> [])"

section \<open>JavaScript numbers\<close>

text \<open>
  A JavaScript Number is an IEEE 754 double. A finite double is modelled by the rational
  it denotes, and every arithmetic operation rounds its exact result to the nearest double,
  ties to even (\<open>to_double\<close>). Overflow to infinity, subnormal numbers and NaN are left
  out here, where the operands are marks, amounts of money and counts of documents; the
  numbers read from a query string, which can be anything, are modelled with them below.
  \<open>ilog2 q\<close> is the binary exponent \<open>\<lfloor>log\<^sub>2 q\<rfloor>\<close> of a positive \<open>q\<close>; a double has 53
  significant bits.
\<close>

definition pow2 :: "int \<Rightarrow> rat" where
  "pow2 e = (if 0 \<le> e then 2 ^ nat e else 1 / 2 ^ nat (- e))"

definition ilog2 :: "rat \<Rightarrow> int" where
  "ilog2 q = (if 1 \<le> q then bitlen \<lfloor>q\<rfloor> - 1 else - bitlen (\<lceil>1 / q\<rceil> - 1))"

definition round_half_even :: "rat \<Rightarrow> int" where
  "round_half_even x =
     (let f = \<lfloor>x\<rfloor>; r = x - of_int f
      in if r < 1 / 2 then f else if 1 / 2 < r then f + 1 else if even f then f else f + 1)"

definition to_double :: "rat \<Rightarrow> rat" where
  "to_double q =
     (if q = 0 then 0
      else let e = ilog2 \<bar>q\<bar> - 52
           in sgn q * of_int (round_half_even (\<bar>q\<bar> / pow2 e)) * pow2 e)"

definition js_add :: "rat \<Rightarrow> rat \<Rightarrow> rat" where
  "js_add x y = to_double (x + y)"

definition js_sub :: "rat \<Rightarrow> rat \<Rightarrow> rat" where
  "js_sub x y = to_double (x - y)"

definition js_mul :: "rat \<Rightarrow> rat \<Rightarrow> rat" where
  "js_mul x y = to_double (x * y)"

text \<open>\<open>x / y\<close> for \<open>y \<noteq> 0\<close>; the callers below exclude a zero divisor before dividing.\<close>

definition js_div :: "rat \<Rightarrow> rat \<Rightarrow> rat" where
  "js_div x y = to_double (x / y)"

text \<open>\<^verbatim>\<open>Math.round\<close> rounds to the nearest integer, a tie towards \<open>+\<infinity>\<close>.\<close>

definition Math_round :: "rat \<Rightarrow> int" where
  "Math_round x = \<lfloor>x + 1 / 2\<rfloor>"

definition Math_ceil :: "rat \<Rightarrow> int" where
  "Math_ceil x = \<lceil>x\<rceil>"

section \<open>Numbers read from the query string\<close>

text \<open>
  The query parameters \<^verbatim>\<open>page\<close> and \<^verbatim>\<open>limit\<close> reach a handler as the strings of
  the URL, or not at all; a parameter is taken to occur at most once, so that it is not an
  array or an object. The handlers turn such a string into a number in two ways: by
  \<^verbatim>\<open>parseInt\<close>, and by the numeric coercion of \<^verbatim>\<open>-\<close>, \<^verbatim>\<open>*\<close>, \<^verbatim>\<open>/\<close>, \<^verbatim>\<open><\<close> and
  \<^verbatim>\<open>>\<close>. Both can give a number that is not finite, so here a Number is a finite double,
  the negative zero, an infinity or NaN. Characters are bytes: the white space is that of
  \<open>is_space\<close>.
\<close>

datatype jsnum = Fin rat | NegZero | PosInf | NegInf | NaN

definition jn_signed_zero :: "bool \<Rightarrow> jsnum" where
  "jn_signed_zero neg = (if neg then NegZero else Fin 0)"

definition jn_signed_inf :: "bool \<Rightarrow> jsnum" where
  "jn_signed_inf neg = (if neg then NegInf else PosInf)"

text \<open>
  The double nearest to a rational: a number below \<open>2\<^sup>-\<^sup>1\<^sup>0\<^sup>2\<^sup>2\<close> (binary exponent
  below -1022) is rounded to a multiple of \<open>2\<^sup>-\<^sup>1\<^sup>0\<^sup>7\<^sup>4\<close>, and a number that rounds to
  \<open>2\<^sup>1\<^sup>0\<^sup>2\<^sup>4\<close> or more (binary exponent 1024 or more) is an infinity.
\<close>

definition jn_of_rat :: "rat \<Rightarrow> jsnum" where
  "jn_of_rat q =
     (if q = 0 then Fin 0
      else if ilog2 \<bar>q\<bar> < - 1022 then
        (let n = round_half_even (\<bar>q\<bar> / pow2 (- 1074))
         in if n = 0 then jn_signed_zero (q < 0) else Fin (sgn q * of_int n * pow2 (- 1074)))
      else
        (let d = to_double q
         in if 1024 \<le> ilog2 \<bar>d\<bar> then jn_signed_inf (q < 0) else Fin d))"

text \<open>The sign bit, and the value of a finite number.\<close>

fun jn_sign :: "jsnum \<Rightarrow> bool" where
  "jn_sign (Fin x) = (x < 0)"
| "jn_sign NegZero = True"
| "jn_sign PosInf = False"
| "jn_sign NegInf = True"
| "jn_sign NaN = False"

fun jn_finite :: "jsnum \<Rightarrow> rat option" where
  "jn_finite (Fin x) = Some x"
| "jn_finite NegZero = Some 0"
| "jn_finite PosInf = None"
| "jn_finite NegInf = None"
| "jn_finite NaN = None"

text \<open>The operators \<^verbatim>\<open>-\<close>, \<^verbatim>\<open>*\<close>, \<^verbatim>\<open>/\<close> and \<^verbatim>\<open><\<close> on Numbers, and \<^verbatim>\<open>Math.ceil\<close>.\<close>

definition jn_sub :: "jsnum \<Rightarrow> jsnum \<Rightarrow> jsnum" where
  "jn_sub a b =
     (if a = NaN \<or> b = NaN then NaN
      else case (jn_finite a, jn_finite b) of
             (Some x, Some y) \<Rightarrow>
               if x - y = 0 then jn_signed_zero (a = NegZero \<and> b \<noteq> NegZero)
               else jn_of_rat (x - y)
           | (None, Some y) \<Rightarrow> a
           | (Some x, None) \<Rightarrow> jn_signed_inf (\<not> jn_sign b)
           | (None, None) \<Rightarrow> if a = b then NaN else a)"

definition jn_mul :: "jsnum \<Rightarrow> jsnum \<Rightarrow> jsnum" where
  "jn_mul a b =
     (if a = NaN \<or> b = NaN then NaN
      else case (jn_finite a, jn_finite b) of
             (Some x, Some y) \<Rightarrow>
               if x * y = 0 then jn_signed_zero (jn_sign a \<noteq> jn_sign b)
               else jn_of_rat (x * y)
           | (None, Some y) \<Rightarrow> if y = 0 then NaN else jn_signed_inf (jn_sign a \<noteq> jn_sign b)
           | (Some x, None) \<Rightarrow> if x = 0 then NaN else jn_signed_inf (jn_sign a \<noteq> jn_sign b)
           | (None, None) \<Rightarrow> jn_signed_inf (jn_sign a \<noteq> jn_sign b))"

definition jn_div :: "jsnum \<Rightarrow> jsnum \<Rightarrow> jsnum" where
  "jn_div a b =
     (if a = NaN \<or> b = NaN then NaN
      else case (jn_finite a, jn_finite b) of
             (Some x, Some y) \<Rightarrow>
               if y = 0 then (if x = 0 then NaN else jn_signed_inf (jn_sign a \<noteq> jn_sign b))
               else if x = 0 then jn_signed_zero (jn_sign a \<noteq> jn_sign b)
               else jn_of_rat (x / y)
           | (None, Some y) \<Rightarrow> jn_signed_inf (jn_sign a \<noteq> jn_sign b)
           | (Some x, None) \<Rightarrow> jn_signed_zero (jn_sign a \<noteq> jn_sign b)
           | (None, None) \<Rightarrow> NaN)"

definition jn_lt :: "jsnum \<Rightarrow> jsnum \<Rightarrow> bool" where
  "jn_lt a b \<longleftrightarrow>
     a \<noteq> NaN \<and> b \<noteq> NaN \<and>
     (case (jn_finite a, jn_finite b) of
        (Some x, Some y) \<Rightarrow> x < y
      | (None, Some y) \<Rightarrow> a = NegInf
      | (Some x, None) \<Rightarrow> b = PosInf
      | (None, None) \<Rightarrow> a = NegInf \<and> b = PosInf)"

fun jn_ceil :: "jsnum \<Rightarrow> jsnum" where
  "jn_ceil (Fin x) = (if \<lceil>x\<rceil> = 0 \<and> x < 0 then NegZero else Fin (of_int \<lceil>x\<rceil>))"
| "jn_ceil NegZero = NegZero"
| "jn_ceil PosInf = PosInf"
| "jn_ceil NegInf = NegInf"
| "jn_ceil NaN = NaN"

text \<open>A Number is falsy when it is a zero or NaN.\<close>

definition jn_truthy :: "jsnum \<Rightarrow> bool" where
  "jn_truthy a \<longleftrightarrow> a \<noteq> NaN \<and> jn_finite a \<noteq> Some 0"

text \<open>Digits: the value of a digit or letter, and of a string of digits in a radix.\<close>

definition is_digit :: "char \<Rightarrow> bool" where
  "is_digit c \<longleftrightarrow> c \<in> set ''0123456789''"

definition digit_of :: "char \<Rightarrow> nat" where
  "digit_of c =
     (if c \<in> set ''0123456789'' then of_char c - 48
      else if c \<in> set ''abcdef'' then of_char c - 87
      else of_char c - 55)"

definition is_radix_digit :: "nat \<Rightarrow> char \<Rightarrow> bool" where
  "is_radix_digit r c \<longleftrightarrow> c \<in> set ''0123456789abcdefABCDEF'' \<and> digit_of c < r"

definition radix_val :: "nat \<Rightarrow> string \<Rightarrow> nat" where
  "radix_val r s = foldl (\<lambda>n c. r * n + digit_of c) 0 s"

definition pow10 :: "int \<Rightarrow> rat" where
  "pow10 e = (if 0 \<le> e then 10 ^ nat e else 1 / 10 ^ nat (- e))"

definition strip_sign :: "string \<Rightarrow> bool \<times> string" where
  "strip_sign s =
     (case s of
        [] \<Rightarrow> (False, [])
      | c # r \<Rightarrow> if c = CHR ''-'' then (True, r) else if c = CHR ''+'' then (False, r)
                 else (False, s))"

definition radix_prefix :: "string \<Rightarrow> string \<Rightarrow> bool" where
  "radix_prefix cs s \<longleftrightarrow> (case s of a # b # r \<Rightarrow> a = CHR ''0'' \<and> b \<in> set cs | _ \<Rightarrow> False)"

text \<open>
  The numeric coercion of a string (\<^verbatim>\<open>StringToNumber\<close>): white space around the literal
  is dropped; the empty string is 0; a literal is binary, octal or hexadecimal with its
  prefix and no sign, or decimal with an optional sign, fraction and exponent, or
  \<^verbatim>\<open>Infinity\<close>; everything else is NaN.
\<close>

definition exponent_of :: "string \<Rightarrow> int option" where
  "exponent_of s =
     (case s of
        [] \<Rightarrow> Some 0
      | c # r \<Rightarrow>
          if c \<in> set ''eE'' then
            (let (neg, ds) = strip_sign r
             in if ds \<noteq> [] \<and> list_all is_digit ds
                then Some (if neg then - int (radix_val 10 ds) else int (radix_val 10 ds))
                else None)
          else None)"

definition decimal_of :: "string \<Rightarrow> rat option" where
  "decimal_of s =
     (let ip = takeWhile is_digit s;
          r1 = dropWhile is_digit s;
          fp = (case r1 of [] \<Rightarrow> [] | c # t \<Rightarrow> if c = CHR ''.'' then takeWhile is_digit t else []);
          r2 = (case r1 of [] \<Rightarrow> [] | c # t \<Rightarrow> if c = CHR ''.'' then dropWhile is_digit t else r1)
      in if ip = [] \<and> fp = [] then None
         else case exponent_of r2 of
                None \<Rightarrow> None
              | Some ex \<Rightarrow>
                  Some (of_nat (radix_val 10 (ip @ fp)) * pow10 (ex - int (length fp))))"

definition nondecimal :: "nat \<Rightarrow> string \<Rightarrow> jsnum" where
  "nondecimal r ds =
     (if ds \<noteq> [] \<and> list_all (is_radix_digit r) ds then jn_of_rat (of_nat (radix_val r ds))
      else NaN)"

definition StringToNumber :: "string \<Rightarrow> jsnum" where
  "StringToNumber s =
     (let t = trim s
      in if t = [] then Fin 0
         else if radix_prefix ''xX'' t then nondecimal 16 (drop 2 t)
         else if radix_prefix ''oO'' t then nondecimal 8 (drop 2 t)
         else if radix_prefix ''bB'' t then nondecimal 2 (drop 2 t)
         else
           (let (neg, u) = strip_sign t
            in if u = ''Infinity'' then jn_signed_inf neg
               else case decimal_of u of
                      None \<Rightarrow> NaN
                    | Some q \<Rightarrow>
                        if q = 0 then jn_signed_zero neg
                        else jn_of_rat (if neg then - q else q)))"

text \<open>
  \<^verbatim>\<open>parseInt\<close> without a radix: leading white space and a sign are dropped, the prefix
  \<^verbatim>\<open>0x\<close> selects radix 16, and the longest run of digits that follows is the number; what
  comes after it is ignored, and no digit at all gives NaN.
\<close>

definition parseInt :: "string \<Rightarrow> jsnum" where
  "parseInt s =
     (let (neg, s2) = strip_sign (dropWhile is_space s);
          radix = (if radix_prefix ''xX'' s2 then 16 else 10);
          s3 = (if radix_prefix ''xX'' s2 then drop 2 s2 else s2);
          z = takeWhile (is_radix_digit radix) s3
      in if z = [] then NaN
         else
           (let n = radix_val radix z
            in if n = 0 then jn_signed_zero neg
               else jn_of_rat (if neg then - of_nat n else of_nat n)))"

text \<open>
  A destructured query parameter with a default, \<^verbatim>\<open>const { page = 1 } = req.query\<close>:
  the default is a Number and is used when the parameter is absent. \<open>param_number\<close> is
  the numeric coercion of the variable and \<open>param_parseInt\<close> its \<^verbatim>\<open>parseInt\<close>.
\<close>

definition param_number :: "nat \<Rightarrow> string option \<Rightarrow> jsnum" where
  "param_number d prm = (case prm of None \<Rightarrow> Fin (of_nat d) | Some s \<Rightarrow> StringToNumber s)"

definition param_parseInt :: "nat \<Rightarrow> string option \<Rightarrow> jsnum" where
  "param_parseInt d prm = (case prm of None \<Rightarrow> Fin (of_nat d) | Some s \<Rightarrow> parseInt s)"

text \<open>
  A parameter reads as the natural number \<open>n\<close> when both readings give \<open>n\<close>, as they do
  for a string of decimal digits.
\<close>

definition reads_as :: "nat \<Rightarrow> string option \<Rightarrow> nat \<Rightarrow> bool" where
  "reads_as d prm n \<longleftrightarrow>
     param_number d prm = Fin (of_nat n) \<and> param_parseInt d prm = Fin (of_nat n)"

text \<open>
  The skip and the limit of a cursor. The repository hands the Numbers to the database
  driver, which reads a Number as a 64-bit integer: the whole part, NaN as 0. A negative
  skip is refused (the handlers answer 500), a limit of 0 is no limit, and a negative limit
  is taken as its absolute value.
\<close>

fun db_int :: "jsnum \<Rightarrow> int" where
  "db_int (Fin x) = min (2 ^ 63 - 1) (max (- (2 ^ 63)) (if 0 \<le> x then \<lfloor>x\<rfloor> else \<lceil>x\<rceil>))"
| "db_int NegZero = 0"
| "db_int PosInf = 2 ^ 63 - 1"
| "db_int NegInf = - (2 ^ 63)"
| "db_int NaN = 0"

definition cursor_page :: "jsnum \<Rightarrow> jsnum \<Rightarrow> 'a list \<Rightarrow> 'a list option" where
  "cursor_page skip limit xs =
     (if db_int skip < 0 then None
      else let rest = drop (nat (db_int skip)) xs
           in Some (if db_int limit = 0 then rest else take (nat \<bar>db_int limit\<bar>) rest))"

section \<open>Library: issuing and returning books\<close>














section \<open>ExamMark: percentage, grade and pass status\<close>

text \<open>
  \<^verbatim>\<open>backend/models/ExamMark.js\<close>. The record holds the fields the two pre-save hooks
  read and write. \<^verbatim>\<open>grade\<close> and \<^verbatim>\<open>isPassed\<close> are required by the schema, and
  validation runs before the pre-save hooks, so a document that reaches the hooks has
  them; \<^verbatim>\<open>percentage\<close> is optional.
\<close>

record examMark =
  em_marksObtained :: rat
  em_totalMarks :: rat
  em_passingMarks :: rat
  em_grade :: string
  em_percentage :: "rat option"
  em_isPassed :: bool
  em_isAbsent :: bool

definition grade_enum :: "string list" where
  "grade_enum = [''A+'', ''A'', ''B+'', ''B'', ''C+'', ''C'', ''D+'', ''D'', ''F'']"

definition examMark_validate :: "examMark \<Rightarrow> save_error + examMark" where
  "examMark_validate m =
     (if em_marksObtained m < 0 then Inl (ValidationError ''Marks cannot be negative'')
      else if em_totalMarks m < 1 then Inl (ValidationError ''Total marks must be at least 1'')
      else if em_passingMarks m < 1
        then Inl (ValidationError ''Passing marks must be at least 1'')
      else if em_grade m \<notin> set grade_enum then Inl (ValidationError ''grade'')
      else case em_percentage m of
             None \<Rightarrow> Inr m
           | Some p \<Rightarrow>
               if p < 0 then Inl (ValidationError ''Percentage cannot be negative'')
               else if 100 < p then Inl (ValidationError ''Percentage cannot exceed 100'')
               else Inr m)"

text \<open>The first hook: marks obtained must not exceed the total marks.\<close>

definition examMark_check_marks :: "examMark \<Rightarrow> save_error + examMark" where
  "examMark_check_marks m =
     (if em_marksObtained m > em_totalMarks m
        then Inl (HookError ''Marks obtained cannot be greater than total marks'')
      else Inr m)"

definition calculateGrade :: "rat \<Rightarrow> string" where
  "calculateGrade percentage =
     (if percentage \<ge> 90 then ''A+''
      else if percentage \<ge> 80 then ''A''
      else if percentage \<ge> 70 then ''B+''
      else if percentage \<ge> 60 then ''B''
      else if percentage \<ge> 50 then ''C+''
      else if percentage \<ge> 40 then ''C''
      else if percentage \<ge> 35 then ''D+''
      else if percentage \<ge> 30 then ''D''
      else ''F'')"

text \<open>The second hook: percentage, grade and pass status.\<close>

definition examMark_calculate :: "examMark \<Rightarrow> examMark" where
  "examMark_calculate m =
     (if em_isAbsent m
        then m\<lparr>em_marksObtained := 0, em_percentage := Some 0, em_grade := ''F'',
               em_isPassed := False\<rparr>
      else
        (let percentage =
               of_int (Math_round (js_mul (js_div (em_marksObtained m) (em_totalMarks m)) 100))
         in m\<lparr>em_percentage := Some percentage,
               em_isPassed := (em_marksObtained m \<ge> em_passingMarks m),
               em_grade := calculateGrade percentage\<rparr>))"

definition examMark_save :: "examMark \<Rightarrow> save_error + examMark" where
  "examMark_save m =
     (case examMark_validate m of
        Inl e \<Rightarrow> Inl e
      | Inr m1 \<Rightarrow>
          (case examMark_check_marks m1 of
             Inl e \<Rightarrow> Inl e
           | Inr m2 \<Rightarrow> Inr (examMark_calculate m2)))"

text \<open>
  The grading rule in the words of the specification: the table of thresholds, read from
  the top, the first threshold the percentage reaches giving the grade, and F below all.
\<close>

definition grade_thresholds :: "(rat \<times> string) list" where
  "grade_thresholds =
     [(90, ''A+''), (80, ''A''), (70, ''B+''), (60, ''B''), (50, ''C+''), (40, ''C''),
      (35, ''D+''), (30, ''D'')]"

definition spec_grade :: "rat \<Rightarrow> string" where
  "spec_grade p =
     (case find (\<lambda>(t, g). p \<ge> t) grade_thresholds of
        Some (t, g) \<Rightarrow> g
      | None \<Rightarrow> ''F'')"

section \<open>FeePayment: total amount and status\<close>

text \<open>
  \<^verbatim>\<open>backend/models/FeePayment.js\<close>. Dates are milliseconds since the epoch;
  \<^verbatim>\<open>dueDate\<close> and \<^verbatim>\<open>receiptNumber\<close> are optional. The fields not read or written by
  the status computation (student, fee type, month, year, payment method) are left out,
  and so is the unique index on the receipt number.
\<close>

datatype fee_status = Paid | Partial | Pending | Overdue | Cancelled

record feePayment =
  fee_dueAmount :: rat
  fee_paidAmount :: rat
  fee_lateFee :: rat
  fee_discount :: rat
  fee_totalAmount :: rat
  fee_dueDate :: "int option"
  fee_receiptNumber :: "string option"
  fee_status :: fee_status

text \<open>
  The receipt number is declared with \<^verbatim>\<open>trim: true\<close>: it is stored, validated and
  read by the hook without its leading and trailing white space.
\<close>

definition feePayment_cast :: "feePayment \<Rightarrow> feePayment" where
  "feePayment_cast p = p\<lparr>fee_receiptNumber := map_option trim (fee_receiptNumber p)\<rparr>"

definition feePayment_validate :: "feePayment \<Rightarrow> save_error + feePayment" where
  "feePayment_validate p =
     (if fee_dueAmount p < 0 then Inl (ValidationError ''Due amount cannot be negative'')
      else if fee_paidAmount p < 0
        then Inl (ValidationError ''Paid amount cannot be negative'')
      else if fee_lateFee p < 0 then Inl (ValidationError ''Late fee cannot be negative'')
      else if fee_discount p < 0 then Inl (ValidationError ''Discount cannot be negative'')
      else if fee_totalAmount p < 0
        then Inl (ValidationError ''Total amount cannot be negative'')
      else if (case fee_receiptNumber p of None \<Rightarrow> False | Some r \<Rightarrow> length r > 50)
        then Inl (ValidationError ''Receipt number cannot exceed 50 characters'')
      else Inr p)"


text \<open>
  The pre-save hook, run at time \<open>now\<close>. A document without a receipt number (none,
  or an empty one after trimming) gets one:
  \<open>receipt\<close> stands for the number \<^verbatim>\<open>RCP<year><month><seq>\<close> the hook builds from the
  clock and the last receipt of the month; how it is built does not touch the other fields.
\<close>

definition feePayment_pre_save :: "int \<Rightarrow> string \<Rightarrow> feePayment \<Rightarrow> feePayment" where
  "feePayment_pre_save now receipt p =
     (let p1 = (if \<not> truthy (fee_receiptNumber p)
                then p\<lparr>fee_receiptNumber := Some receipt\<rparr> else p);
          p2 = p1\<lparr>fee_totalAmount :=
                      js_sub (js_add (fee_paidAmount p1) (fee_lateFee p1)) (fee_discount p1)\<rparr>
      in if fee_paidAmount p2 \<ge> fee_dueAmount p2 then p2\<lparr>fee_status := Paid\<rparr>
         else if fee_paidAmount p2 > 0 then p2\<lparr>fee_status := Partial\<rparr>
         else if (case fee_dueDate p2 of None \<Rightarrow> False | Some d \<Rightarrow> now > d)
           then p2\<lparr>fee_status := Overdue\<rparr>
         else p2\<lparr>fee_status := Pending\<rparr>)"

definition feePayment_save :: "int \<Rightarrow> string \<Rightarrow> feePayment \<Rightarrow> save_error + feePayment" where
  "feePayment_save now receipt p =
     (case feePayment_validate (feePayment_cast p) of
        Inl e \<Rightarrow> Inl e
      | Inr p1 \<Rightarrow> Inr (feePayment_pre_save now receipt p1))"

text \<open>
  \<^verbatim>\<open>FeePayment.create\<close>, the only call in the repository that writes a fee payment:
  the document is saved and added to the collection.
\<close>

definition feePayment_create ::
  "feePayment list \<Rightarrow> int \<Rightarrow> string \<Rightarrow> feePayment \<Rightarrow> save_error + feePayment list" where
  "feePayment_create db now receipt p =
     (case feePayment_save now receipt p of
        Inl e \<Rightarrow> Inl e
      | Inr p' \<Rightarrow> Inr (db @ [p']))"

text \<open>
  A run of \<^verbatim>\<open>create\<close> calls on an empty collection; each call has its own clock
  reading, receipt number and document, and a rejected call leaves the collection as it is.
\<close>

fun feePayment_creates ::
  "feePayment list \<Rightarrow> (int \<times> string \<times> feePayment) list \<Rightarrow> feePayment list" where
  "feePayment_creates db [] = db"
| "feePayment_creates db ((now, receipt, p) # rest) =
     (case feePayment_create db now receipt p of
        Inl e \<Rightarrow> feePayment_creates db rest
      | Inr db' \<Rightarrow> feePayment_creates db' rest)"


section \<open>The pagination envelope of the list endpoints\<close>

text \<open>
  The envelope is built from the raw query parameters \<^verbatim>\<open>page\<close> and \<^verbatim>\<open>limit\<close> and
  the count of matching documents. \<^verbatim>\<open>current\<close> is a Number, or the page string itself
  where a handler sends the parameter back as it came. JSON writes NaN and the infinities
  as \<open>null\<close> and the negative zero as 0. A field of the envelope that an endpoint does
  not send is \<open>None\<close>.
\<close>

datatype json_page = JNumber jsnum | JString string

record pagination =
  pg_current :: json_page
  pg_pages :: jsnum
  pg_total :: nat
  pg_hasNext :: "bool option"
  pg_hasPrev :: "bool option"
  pg_limit :: "jsnum option"

text \<open>\<^verbatim>\<open>Math.ceil(total / limit)\<close>.\<close>

definition total_pages :: "nat \<Rightarrow> jsnum \<Rightarrow> jsnum" where
  "total_pages count limit = jn_ceil (jn_div (Fin (of_nat count)) limit)"

text \<open>
  The envelope built by \<^verbatim>\<open>getAttendance\<close>, \<^verbatim>\<open>getFeeStructures\<close>,
  \<^verbatim>\<open>getFeePayments\<close>, \<^verbatim>\<open>getExams\<close>, \<^verbatim>\<open>getSubjects\<close>, \<^verbatim>\<open>getTeachers\<close>,
  \<^verbatim>\<open>getBooks\<close>, \<^verbatim>\<open>getNotices\<close>, \<^verbatim>\<open>getInbox\<close>, \<^verbatim>\<open>getSent\<close> and
  \<^verbatim>\<open>getStarred\<close>; \<open>dl\<close> is the default of \<^verbatim>\<open>limit\<close>. \<^verbatim>\<open>current\<close> is
  \<^verbatim>\<open>parseInt(page)\<close>, while the quotient and the two comparisons coerce the strings.
\<close>

definition envelope_with_next ::
  "nat \<Rightarrow> string option \<Rightarrow> string option \<Rightarrow> nat \<Rightarrow> pagination" where
  "envelope_with_next dl page limit count =
     \<lparr>pg_current = JNumber (param_parseInt 1 page),
      pg_pages = total_pages count (param_number dl limit),
      pg_total = count,
      pg_hasNext =
        Some (jn_lt (param_number 1 page) (total_pages count (param_number dl limit))),
      pg_hasPrev = Some (jn_lt (Fin 1) (param_number 1 page)),
      pg_limit = None\<rparr>"

text \<open>
  \<^verbatim>\<open>getStudents\<close> sends \<^verbatim>\<open>{current, pages, total}\<close> only, with \<^verbatim>\<open>current: page\<close>:
  the default 1, or the string of the query.
\<close>

definition envelope_students :: "string option \<Rightarrow> string option \<Rightarrow> nat \<Rightarrow> pagination" where
  "envelope_students page limit count =
     \<lparr>pg_current = (case page of None \<Rightarrow> JNumber (Fin 1) | Some s \<Rightarrow> JString s),
      pg_pages = total_pages count (param_number 10 limit),
      pg_total = count,
      pg_hasNext = None,
      pg_hasPrev = None,
      pg_limit = None\<rparr>"

text \<open>
  \<^verbatim>\<open>getUsers\<close> sends \<^verbatim>\<open>{current, pages, total, limit}\<close>, with \<^verbatim>\<open>parseInt(limit)\<close>
  also in the quotient.
\<close>

definition envelope_users :: "string option \<Rightarrow> string option \<Rightarrow> nat \<Rightarrow> pagination" where
  "envelope_users page limit count =
     \<lparr>pg_current = JNumber (param_parseInt 1 page),
      pg_pages = total_pages count (param_parseInt 10 limit),
      pg_total = count,
      pg_hasNext = None,
      pg_hasPrev = None,
      pg_limit = Some (param_parseInt 10 limit)\<rparr>"

datatype list_endpoint =
    GetAttendance | GetFeeStructures | GetFeePayments | GetExams | GetSubjects | GetTeachers
  | GetBooks | GetNotices | GetInbox | GetSent | GetStarred | GetStudents | GetUsers

text \<open>
  The default of \<^verbatim>\<open>limit\<close> in the destructured query: the message lists take 20 items a
  page. The default of \<^verbatim>\<open>page\<close> is 1 everywhere.
\<close>

definition default_limit :: "list_endpoint \<Rightarrow> nat" where
  "default_limit e = (if e \<in> {GetInbox, GetSent, GetStarred} then 20 else 10)"

definition list_pagination ::
  "list_endpoint \<Rightarrow> string option \<Rightarrow> string option \<Rightarrow> nat \<Rightarrow> pagination" where
  "list_pagination e page_param limit_param count =
     (if e = GetStudents then envelope_students page_param limit_param count
      else if e = GetUsers then envelope_users page_param limit_param count
      else envelope_with_next (default_limit e) page_param limit_param count)"

section \<open>Attendance: the list, the student summary and the percentage\<close>

text \<open>
  \<^verbatim>\<open>backend/controllers/attendanceController.js\<close> and the Attendance model. Dates are
  milliseconds since the epoch. The role of a user is the string of the User schema
  (\<^verbatim>\<open>Admin\<close>, \<^verbatim>\<open>Teacher\<close>, \<^verbatim>\<open>Student\<close>, \<^verbatim>\<open>Parent\<close>). A student's class is the
  populated reference, \<open>None\<close> when there is none.
\<close>

record user =
  usr_id :: objectId
  usr_role :: string

record student =
  st_id :: objectId
  st_user :: objectId
  st_parent :: "objectId option"
  st_class :: "objectId option"

record teacher =
  tch_id :: objectId
  tch_user :: objectId
  tch_assignedClasses :: "objectId list"

datatype att_status = Present | Absent | Late | Excused

fun status_name :: "att_status \<Rightarrow> string" where
  "status_name Present = ''Present''"
| "status_name Absent = ''Absent''"
| "status_name Late = ''Late''"
| "status_name Excused = ''Excused''"

record attendance =
  att_id :: objectId
  att_student :: objectId
  att_class :: objectId
  att_section :: "objectId option"
  att_subject :: "objectId option"
  att_date :: int
  att_status :: att_status
  att_createdAt :: int

text \<open>
  The MongoDB filter the handlers build: a field is absent, a value, or \<^verbatim>\<open>$in\<close> a list;
  the date is absent, \<^verbatim>\<open>{$gte, $lt}\<close> or \<^verbatim>\<open>{$gte, $lte}\<close>.
\<close>

datatype id_filter = IdEq objectId | IdIn "objectId list"

datatype date_filter = GteLt int int | GteLte int int

record attendance_filter =
  f_student :: "id_filter option"
  f_class :: "id_filter option"
  f_section :: "objectId option"
  f_subject :: "objectId option"
  f_status :: "string option"
  f_date :: "date_filter option"

fun id_matches :: "id_filter option \<Rightarrow> objectId \<Rightarrow> bool" where
  "id_matches None i = True"
| "id_matches (Some (IdEq j)) i = (i = j)"
| "id_matches (Some (IdIn js)) i = (i \<in> set js)"

fun ref_matches :: "objectId option \<Rightarrow> objectId option \<Rightarrow> bool" where
  "ref_matches None r = True"
| "ref_matches (Some j) r = (r = Some j)"

fun date_matches :: "date_filter option \<Rightarrow> int \<Rightarrow> bool" where
  "date_matches None d = True"
| "date_matches (Some (GteLt lo hi)) d = (lo \<le> d \<and> d < hi)"
| "date_matches (Some (GteLte lo hi)) d = (lo \<le> d \<and> d \<le> hi)"

definition attendance_matches :: "attendance_filter \<Rightarrow> attendance \<Rightarrow> bool" where
  "attendance_matches q r \<longleftrightarrow>
     id_matches (f_student q) (att_student r) \<and>
     id_matches (f_class q) (att_class r) \<and>
     ref_matches (f_section q) (att_section r) \<and>
     ref_matches (f_subject q) (att_subject r) \<and>
     (case f_status q of None \<Rightarrow> True | Some s \<Rightarrow> status_name (att_status r) = s) \<and>
     date_matches (f_date q) (att_date r)"

definition attendance_find :: "attendance list \<Rightarrow> attendance_filter \<Rightarrow> attendance list" where
  "attendance_find db q = filter (attendance_matches q) db"

text \<open>
  The query string of \<^verbatim>\<open>GET /api/attendance\<close>. A string parameter is used when it is
  truthy. The date parameters are the timestamps their strings parse to; \<^verbatim>\<open>page\<close> and
  \<^verbatim>\<open>limit\<close> are the raw strings.
\<close>

record attendance_params =
  ap_page :: "string option"
  ap_limit :: "string option"
  ap_class :: "string option"
  ap_section :: "string option"
  ap_student :: "string option"
  ap_subject :: "string option"
  ap_date :: "int option"
  ap_startDate :: "int option"
  ap_endDate :: "int option"
  ap_status :: "string option"

definition empty_filter :: attendance_filter where
  "empty_filter =
     \<lparr>f_student = None, f_class = None, f_section = None, f_subject = None,
      f_status = None, f_date = None\<rparr>"

text \<open>The role-based part of the query of \<^verbatim>\<open>getAttendance\<close>.\<close>

definition role_filter :: "student list \<Rightarrow> teacher list \<Rightarrow> user \<Rightarrow> attendance_filter" where
  "role_filter students teachers u =
     (if usr_role u = ''Student'' then
        (case find (\<lambda>s. st_user s = usr_id u) students of
           Some s \<Rightarrow> empty_filter\<lparr>f_student := Some (IdEq (st_id s))\<rparr>
         | None \<Rightarrow> empty_filter)
      else if usr_role u = ''Parent'' then
        (let children = filter (\<lambda>s. st_parent s = Some (usr_id u)) students
         in if length children > 0
            then empty_filter\<lparr>f_student := Some (IdIn (map st_id children))\<rparr>
            else empty_filter)
      else if usr_role u = ''Teacher'' then
        (case find (\<lambda>t. tch_user t = usr_id u) teachers of
           Some t \<Rightarrow> empty_filter\<lparr>f_class := Some (IdIn (tch_assignedClasses t))\<rparr>
         | None \<Rightarrow> empty_filter)
      else empty_filter)"

text \<open>
  The filters of the query string, applied after the role-based part: each assignment
  replaces what the field held. A day is taken as 86400000 ms.
\<close>

definition apply_filters :: "attendance_params \<Rightarrow> attendance_filter \<Rightarrow> attendance_filter" where
  "apply_filters p q0 =
     (let q1 = (if truthy (ap_class p) then q0\<lparr>f_class := Some (IdEq (the (ap_class p)))\<rparr> else q0);
          q2 = (if truthy (ap_section p) then q1\<lparr>f_section := ap_section p\<rparr> else q1);
          q3 = (if truthy (ap_student p)
                then q2\<lparr>f_student := Some (IdEq (the (ap_student p)))\<rparr> else q2);
          q4 = (if truthy (ap_subject p) then q3\<lparr>f_subject := ap_subject p\<rparr> else q3);
          q5 = (if truthy (ap_status p) then q4\<lparr>f_status := ap_status p\<rparr> else q4)
      in case ap_date p of
           Some d \<Rightarrow> q5\<lparr>f_date := Some (GteLt d (d + 86400000))\<rparr>
         | None \<Rightarrow>
             (case (ap_startDate p, ap_endDate p) of
                (Some s, Some e) \<Rightarrow> q5\<lparr>f_date := Some (GteLte s e)\<rparr>
              | _ \<Rightarrow> q5))"

definition attendance_query ::
  "student list \<Rightarrow> teacher list \<Rightarrow> user \<Rightarrow> attendance_params \<Rightarrow> attendance_filter" where
  "attendance_query students teachers u p = apply_filters p (role_filter students teachers u)"

text \<open>
  \<^verbatim>\<open>.sort({date: -1, createdAt: -1}).limit(limit * 1).skip((page - 1) * limit)\<close>: the
  skip is applied before the limit, and a skip that the database refuses is answered with
  500. The count of the envelope is that of the whole query.
\<close>

definition attendance_sort :: "attendance list \<Rightarrow> attendance list" where
  "attendance_sort rs = sort_key (\<lambda>r. (- att_date r, - att_createdAt r)) rs"

definition getAttendance ::
  "student list \<Rightarrow> teacher list \<Rightarrow> attendance list \<Rightarrow> user \<Rightarrow> attendance_params
     \<Rightarrow> nat \<times> (attendance list \<times> pagination) option" where
  "getAttendance students teachers db u p =
     (let page = param_number 1 (ap_page p);
          limit = param_number 10 (ap_limit p);
          query = attendance_query students teachers u p;
          found = attendance_find db query
      in case cursor_page (jn_mul (jn_sub page (Fin 1)) limit) (jn_mul limit (Fin 1))
                (attendance_sort found) of
           None \<Rightarrow> (500, None)
         | Some attendance \<Rightarrow>
             (200, Some (attendance,
                envelope_with_next 10 (ap_page p) (ap_limit p) (length found))))"

text \<open>
  The summary of \<^verbatim>\<open>getStudentAttendanceSummary\<close>
  (\<^verbatim>\<open>GET /api/attendance/student/:studentId/summary\<close>). A student may ask for the
  own summary only, a parent for a child's.
\<close>

record attendance_summary =
  sum_totalDays :: nat
  sum_presentDays :: nat
  sum_absentDays :: nat
  sum_lateDays :: nat
  sum_excusedDays :: nat
  sum_attendancePercentage :: int

definition count_status :: "att_status \<Rightarrow> attendance list \<Rightarrow> nat" where
  "count_status s rs = length (filter (\<lambda>r. att_status r = s) rs)"

definition percent_of :: "nat \<Rightarrow> nat \<Rightarrow> int" where
  "percent_of part whole = Math_round (js_mul (js_div (of_nat part) (of_nat whole)) 100)"

definition controller_summary :: "attendance list \<Rightarrow> attendance_summary" where
  "controller_summary rs =
     (let totalDays = length rs;
          presentDays = count_status Present rs;
          absentDays = count_status Absent rs;
          lateDays = count_status Late rs;
          excusedDays = count_status Excused rs
      in \<lparr>sum_totalDays = totalDays, sum_presentDays = presentDays,
          sum_absentDays = absentDays, sum_lateDays = lateDays, sum_excusedDays = excusedDays,
          sum_attendancePercentage =
            (if totalDays > 0 then percent_of (presentDays + lateDays + excusedDays) totalDays
             else 0)\<rparr>)"

definition summary_filter ::
  "objectId \<Rightarrow> int option \<Rightarrow> int option \<Rightarrow> string option \<Rightarrow> attendance_filter" where
  "summary_filter studentId startDate endDate subject =
     (let q0 = empty_filter\<lparr>f_student := Some (IdEq studentId)\<rparr>;
          q1 = (case (startDate, endDate) of
                  (Some s, Some e) \<Rightarrow> q0\<lparr>f_date := Some (GteLte s e)\<rparr>
                | _ \<Rightarrow> q0)
      in if truthy subject then q1\<lparr>f_subject := subject\<rparr> else q1)"

definition getStudentAttendanceSummary ::
  "student list \<Rightarrow> attendance list \<Rightarrow> user \<Rightarrow> objectId \<Rightarrow> int option \<Rightarrow> int option
     \<Rightarrow> string option \<Rightarrow> nat \<times> attendance_summary option" where
  "getStudentAttendanceSummary students db u studentId startDate endDate subject =
     (if usr_role u = ''Student'' \<and>
         (case find (\<lambda>s. st_user s = usr_id u) students of
            None \<Rightarrow> True
          | Some s \<Rightarrow> st_id s \<noteq> studentId)
      then (403, None)
      else if usr_role u = ''Parent'' \<and>
         find (\<lambda>s. st_id s = studentId \<and> st_parent s = Some (usr_id u)) students = None
      then (403, None)
      else (200, Some (controller_summary
              (attendance_find db (summary_filter studentId startDate endDate subject)))))"

text \<open>
  \<^verbatim>\<open>calculateStudentAttendance\<close> of the dashboard: the share of Present among all
  attendance documents of the student.
\<close>

definition calculateStudentAttendance :: "attendance list \<Rightarrow> objectId \<Rightarrow> int" where
  "calculateStudentAttendance db studentId =
     (let totalRecords = length (filter (\<lambda>r. att_student r = studentId) db)
      in if totalRecords = 0 then 0
         else
           (let presentRecords =
                  length (filter (\<lambda>r. att_student r = studentId \<and> att_status r = Present) db)
            in percent_of presentRecords totalRecords))"

section \<open>Notices: who sees which notice\<close>

text \<open>
  The Notice model (\<^verbatim>\<open>getForUser\<close>, \<^verbatim>\<open>getPinned\<close>) and \<^verbatim>\<open>getNotices\<close> of the
  notices controller. \<open>nt_expiryDate = None\<close> is a document whose \<^verbatim>\<open>expiryDate\<close> is
  missing or null.
\<close>

record notice =
  nt_id :: objectId
  nt_category :: string
  nt_priority :: string
  nt_targetAudience :: "string list"
  nt_targetClasses :: "objectId list"
  nt_publishDate :: int
  nt_expiryDate :: "int option"
  nt_isPublished :: bool
  nt_isPinned :: bool
  nt_isActive :: bool

text \<open>The clauses of the MongoDB queries, on one document.\<close>

definition not_expired :: "int \<Rightarrow> notice \<Rightarrow> bool" where
  "not_expired now n \<longleftrightarrow> (case nt_expiryDate n of None \<Rightarrow> True | Some d \<Rightarrow> d > now)"

definition audience_matches :: "string \<Rightarrow> notice \<Rightarrow> bool" where
  "audience_matches userRole n \<longleftrightarrow>
     ''All'' \<in> set (nt_targetAudience n) \<or> userRole \<in> set (nt_targetAudience n)"

definition classes_match :: "objectId list \<Rightarrow> notice \<Rightarrow> bool" where
  "classes_match userClasses n \<longleftrightarrow>
     length (nt_targetClasses n) = 0 \<or> (\<exists>c \<in> set (nt_targetClasses n). c \<in> set userClasses)"

definition getForUser_matches :: "int \<Rightarrow> string \<Rightarrow> objectId list \<Rightarrow> bool \<Rightarrow> notice \<Rightarrow> bool" where
  "getForUser_matches now userRole userClasses includeExpired n \<longleftrightarrow>
     nt_isPublished n \<and> nt_isActive n \<and> nt_publishDate n \<le> now \<and>
     (includeExpired \<or> not_expired now n) \<and>
     audience_matches userRole n \<and>
     (length userClasses > 0 \<longrightarrow> classes_match userClasses n)"

text \<open>\<^verbatim>\<open>sort({isPinned: -1, publishDate: -1})\<close>.\<close>

definition notice_sort :: "notice list \<Rightarrow> notice list" where
  "notice_sort ns = sort_key (\<lambda>n. (if nt_isPinned n then 0 else 1 :: nat, - nt_publishDate n)) ns"

text \<open>
  \<^verbatim>\<open>getForUser\<close> with \<^verbatim>\<open>.limit(options.limit || 50).skip(options.skip || 0)\<close>:
  a limit or a skip that is a zero or NaN is replaced.
\<close>

definition getForUser ::
  "notice list \<Rightarrow> int \<Rightarrow> string \<Rightarrow> objectId list \<Rightarrow> jsnum \<Rightarrow> jsnum \<Rightarrow> bool
     \<Rightarrow> notice list option" where
  "getForUser db now userRole userClasses opt_limit opt_skip includeExpired =
     cursor_page (if jn_truthy opt_skip then opt_skip else Fin 0)
       (if jn_truthy opt_limit then opt_limit else Fin 50)
       (notice_sort (filter (getForUser_matches now userRole userClasses includeExpired) db))"

definition getPinned :: "notice list \<Rightarrow> int \<Rightarrow> notice list" where
  "getPinned db now =
     sort_key (\<lambda>n. - nt_publishDate n)
       (filter (\<lambda>n. nt_isPinned n \<and> nt_isPublished n \<and> nt_isActive n \<and> not_expired now n) db)"

record notice_params =
  np_page :: "string option"
  np_limit :: "string option"
  np_category :: "string option"
  np_priority :: "string option"
  np_targetAudience :: "string option"
  np_includeExpired :: "string option"
  np_pinnedOnly :: "string option"

text \<open>The query whose count is the \<^verbatim>\<open>total\<close> of the envelope.\<close>

definition notice_count_matches ::
  "int \<Rightarrow> string \<Rightarrow> objectId list \<Rightarrow> notice_params \<Rightarrow> notice \<Rightarrow> bool" where
  "notice_count_matches now userRole userClasses p n \<longleftrightarrow>
     getForUser_matches now userRole userClasses (np_includeExpired p = Some ''true'') n \<and>
     (truthy (np_category p) \<longrightarrow> Some (nt_category n) = np_category p) \<and>
     (truthy (np_priority p) \<longrightarrow> Some (nt_priority n) = np_priority p) \<and>
     (truthy (np_targetAudience p) \<longrightarrow> the (np_targetAudience p) \<in> set (nt_targetAudience n))"

definition user_classes :: "student list \<Rightarrow> user \<Rightarrow> objectId list" where
  "user_classes students u =
     (if usr_role u = ''Student'' then
        (case find (\<lambda>s. st_user s = usr_id u) students of
           None \<Rightarrow> []
         | Some s \<Rightarrow> (case st_class s of None \<Rightarrow> [] | Some c \<Rightarrow> [c]))
      else [])"

text \<open>
  \<^verbatim>\<open>getNotices\<close>: the limit of the query is \<^verbatim>\<open>parseInt(limit)\<close> and its skip
  \<^verbatim>\<open>(page - 1) * limit\<close>; with \<^verbatim>\<open>pinnedOnly=true\<close> the pinned notices are returned
  instead, and counted.
\<close>

definition getNotices ::
  "student list \<Rightarrow> notice list \<Rightarrow> int \<Rightarrow> user \<Rightarrow> notice_params
     \<Rightarrow> nat \<times> (notice list \<times> pagination) option" where
  "getNotices students db now u p =
     (let userClasses = user_classes students u
      in if np_pinnedOnly p = Some ''true'' then
           (let notices = getPinned db now
            in (200, Some (notices,
                  envelope_with_next 10 (np_page p) (np_limit p) (length notices))))
         else
           (case getForUser db now (usr_role u) userClasses
                   (param_parseInt 10 (np_limit p))
                   (jn_mul (jn_sub (param_number 1 (np_page p)) (Fin 1))
                      (param_number 10 (np_limit p)))
                   (np_includeExpired p = Some ''true'') of
              None \<Rightarrow> (500, None)
            | Some notices \<Rightarrow>
                (200, Some (notices, envelope_with_next 10 (np_page p) (np_limit p)
                   (length (filter (notice_count_matches now (usr_role u) userClasses p) db))))))"


definition role_audience :: "string \<Rightarrow> string" where
  "role_audience role =
     (if role = ''Student'' then ''Students''
      else if role = ''Teacher'' then ''Teachers''
      else if role = ''Parent'' then ''Parents''
      else role)"

definition spec_visible :: "int \<Rightarrow> string \<Rightarrow> objectId option \<Rightarrow> bool \<Rightarrow> notice \<Rightarrow> bool" where
  "spec_visible now role cls includeExpired n \<longleftrightarrow>
     nt_isPublished n \<and> nt_isActive n \<and> nt_publishDate n \<le> now \<and>
     (includeExpired \<or> (case nt_expiryDate n of None \<Rightarrow> True | Some d \<Rightarrow> d > now)) \<and>
     (''All'' \<in> set (nt_targetAudience n) \<or> role_audience role \<in> set (nt_targetAudience n)) \<and>
     (case cls of
        None \<Rightarrow> True
      | Some c \<Rightarrow> nt_targetClasses n = [] \<or> c \<in> set (nt_targetClasses n))"



section \<open>Messages: threads and replies\<close>

text \<open>
  The Message model and \<^verbatim>\<open>replyMessage\<close> of the messages controller. A thread id is a
  string; an absent or empty one is falsy. \<^verbatim>\<open>session\<close> is required by the schema and
  comes from the requesting user, who may have none.
\<close>

record message =
  msg_id :: objectId
  msg_sender :: objectId
  msg_recipient :: objectId
  msg_subject :: string
  msg_message :: string
  msg_priority :: string
  msg_parentMessage :: "objectId option"
  msg_threadId :: "string option"
  msg_session :: "objectId option"

definition priority_enum :: "string list" where
  "priority_enum = [''Low'', ''Normal'', ''High'', ''Urgent'']"

text \<open>The setters and validators of the schema, run before the pre-save hook.\<close>

definition message_cast :: "message \<Rightarrow> message" where
  "message_cast m = m\<lparr>msg_subject := trim (msg_subject m), msg_message := trim (msg_message m)\<rparr>"

definition message_validate :: "message \<Rightarrow> save_error + message" where
  "message_validate m =
     (if msg_subject m = [] then Inl (ValidationError ''Subject is required'')
      else if length (msg_subject m) > 200
        then Inl (ValidationError ''Subject cannot exceed 200 characters'')
      else if msg_message m = [] then Inl (ValidationError ''Message is required'')
      else if length (msg_message m) > 2000
        then Inl (ValidationError ''Message cannot exceed 2000 characters'')
      else if msg_priority m \<notin> set priority_enum then Inl (ValidationError ''priority'')
      else if msg_session m = None then Inl (ValidationError ''session'')
      else Inr m)"

definition message_findById :: "message list \<Rightarrow> objectId \<Rightarrow> message option" where
  "message_findById db i = find (\<lambda>m. msg_id m = i) db"

text \<open>
  The pre-save hook. When the parent of a reply is not in the collection,
  \<^verbatim>\<open>parent.threadId\<close> throws inside the promise and the save fails.
\<close>

definition message_pre_save :: "message list \<Rightarrow> message \<Rightarrow> save_error + message" where
  "message_pre_save db m =
     (if \<not> truthy (msg_threadId m) then
        (case msg_parentMessage m of
           Some pid \<Rightarrow>
             (case message_findById db pid of
                None \<Rightarrow> Inl (HookError ''TypeError'')
              | Some parent \<Rightarrow>
                  Inr (m\<lparr>msg_threadId :=
                           Some (if truthy (msg_threadId parent) then the (msg_threadId parent)
                                 else msg_id parent)\<rparr>))
         | None \<Rightarrow> Inr (m\<lparr>msg_threadId := Some (msg_id m)\<rparr>))
      else Inr m)"

text \<open>\<^verbatim>\<open>Message.create\<close>: the saved document and the collection with it.\<close>

definition message_create :: "message list \<Rightarrow> message \<Rightarrow> save_error + (message \<times> message list)" where
  "message_create db doc =
     (case message_validate (message_cast doc) of
        Inl e \<Rightarrow> Inl e
      | Inr m1 \<Rightarrow>
          (case message_pre_save db m1 of
             Inl e \<Rightarrow> Inl e
           | Inr m2 \<Rightarrow> Inr (m2, db @ [m2])))"

text \<open>
  \<^verbatim>\<open>POST /api/messages/:id/reply\<close>. The body is checked by the validators of the
  route; \<open>newId\<close> is the id the new document gets.
\<close>

record reply_body =
  rb_message :: "string option"
  rb_priority :: "string option"

definition reply_body_valid :: "reply_body \<Rightarrow> bool" where
  "reply_body_valid b \<longleftrightarrow>
     truthy (rb_message b) \<and> length (the (rb_message b)) \<le> 2000 \<and>
     (case rb_priority b of None \<Rightarrow> True | Some p \<Rightarrow> p \<in> set priority_enum)"

definition replyMessage ::
  "message list \<Rightarrow> objectId \<Rightarrow> objectId option \<Rightarrow> objectId \<Rightarrow> reply_body \<Rightarrow> objectId
     \<Rightarrow> (nat \<times> message option) \<times> message list" where
  "replyMessage db userId userSession i body newId =
     (if \<not> reply_body_valid body then ((400, None), db)
      else case message_findById db i of
             None \<Rightarrow> ((404, None), db)
           | Some originalMessage \<Rightarrow>
               if userId \<noteq> msg_sender originalMessage \<and> userId \<noteq> msg_recipient originalMessage
               then ((403, None), db)
               else
                 (let replyRecipient =
                        (if userId = msg_sender originalMessage
                         then msg_recipient originalMessage else msg_sender originalMessage);
                      doc = \<lparr>msg_id = newId, msg_sender = userId, msg_recipient = replyRecipient,
                             msg_subject = ''Re: '' @ msg_subject originalMessage,
                             msg_message = the (rb_message body),
                             msg_priority =
                               (if truthy (rb_priority body) then the (rb_priority body)
                                else ''Normal''),
                             msg_parentMessage = Some (msg_id originalMessage),
                             msg_threadId = msg_threadId originalMessage,
                             msg_session = userSession\<rparr>
                  in case message_create db doc of
                       Inl e \<Rightarrow> ((500, None), db)
                     | Inr (reply, db') \<Rightarrow> ((201, Some reply), db')))"

section \<open>Academic sessions: the active session\<close>

text \<open>
  \<^verbatim>\<open>backend/models/Session.js\<close>. The document that is saved is the stored document
  with some fields assigned, or a new one. \<^verbatim>\<open>isModified('isActive')\<close> holds for a new
  document that is active (the default is inactive), for a stored document whose
  \<^verbatim>\<open>isActive\<close> differs from the stored value, and when the field was assigned to and
  back (\<open>touched\<close>). The description and the references to users are left out of the
  record.
\<close>

record session =
  ses_id :: objectId
  ses_name :: string
  ses_startDate :: int
  ses_endDate :: int
  ses_isActive :: bool

definition session_findById :: "session list \<Rightarrow> objectId \<Rightarrow> session option" where
  "session_findById db i = find (\<lambda>s. ses_id s = i) db"

definition session_cast :: "session \<Rightarrow> session" where
  "session_cast s = s\<lparr>ses_name := trim (ses_name s)\<rparr>"

definition session_validate :: "session \<Rightarrow> save_error + session" where
  "session_validate s =
     (if ses_name s = [] then Inl (ValidationError ''Session name is required'')
      else if length (ses_name s) > 50
        then Inl (ValidationError ''Session name cannot exceed 50 characters'')
      else Inr s)"

definition isModified_isActive :: "session list \<Rightarrow> session \<Rightarrow> bool \<Rightarrow> bool" where
  "isModified_isActive db s touched =
     (case session_findById db (ses_id s) of
        None \<Rightarrow> True
      | Some old \<Rightarrow> touched \<or> ses_isActive old \<noteq> ses_isActive s)"

text \<open>
  The first hook: \<^verbatim>\<open>updateMany({_id: {$ne: this._id}}, {isActive: false})\<close> when an
  active session with a modified \<^verbatim>\<open>isActive\<close> is saved.
\<close>

definition deactivate_others :: "session list \<Rightarrow> objectId \<Rightarrow> session list" where
  "deactivate_others db i = map (\<lambda>d. if ses_id d \<noteq> i then d\<lparr>ses_isActive := False\<rparr> else d) db"

definition session_pre_save_active :: "session list \<Rightarrow> session \<Rightarrow> bool \<Rightarrow> session list" where
  "session_pre_save_active db s touched =
     (if ses_isActive s \<and> isModified_isActive db s touched
      then deactivate_others db (ses_id s) else db)"

text \<open>The second hook: the end date must be after the start date.\<close>

definition session_pre_save_dates :: "session \<Rightarrow> save_error + session" where
  "session_pre_save_dates s =
     (if ses_endDate s \<le> ses_startDate s
        then Inl (HookError ''End date must be after start date'')
      else Inr s)"

text \<open>
  The write that ends the save: the unique index on \<^verbatim>\<open>name\<close> refuses a second
  document of the same name; otherwise the document replaces its stored version or is added.
\<close>

definition session_write :: "session list \<Rightarrow> session \<Rightarrow> save_error + session list" where
  "session_write db s =
     (if \<exists>d \<in> set db. ses_id d \<noteq> ses_id s \<and> ses_name d = ses_name s
        then Inl (ValidationError ''E11000 duplicate key'')
      else case session_findById db (ses_id s) of
             None \<Rightarrow> Inr (db @ [s])
           | Some old \<Rightarrow> Inr (map (\<lambda>d. if ses_id d = ses_id s then s else d) db))"

text \<open>
  \<^verbatim>\<open>save()\<close>: validation, the two hooks in the order of their declaration, the write.
  The result is the saved document or the error, and the collection afterwards: what the
  first hook did to the other sessions stays when a later step fails.
\<close>

definition session_save ::
  "session list \<Rightarrow> session \<Rightarrow> bool \<Rightarrow> (save_error + session) \<times> session list" where
  "session_save db doc touched =
     (case session_validate (session_cast doc) of
        Inl e \<Rightarrow> (Inl e, db)
      | Inr s \<Rightarrow>
          (let db1 = session_pre_save_active db s touched
           in case session_pre_save_dates s of
                Inl e \<Rightarrow> (Inl e, db1)
              | Inr s1 \<Rightarrow>
                  (case session_write db1 s1 of
                     Inl e \<Rightarrow> (Inl e, db1)
                   | Inr db2 \<Rightarrow> (Inr s1, db2))))"

text \<open>A run of saves on a collection.\<close>

fun session_saves :: "session list \<Rightarrow> (session \<times> bool) list \<Rightarrow> session list" where
  "session_saves db [] = db"
| "session_saves db ((doc, touched) # rest) = session_saves (snd (session_save db doc touched)) rest"

definition sessions_ok :: "session list \<Rightarrow> bool" where
  "sessions_ok db \<longleftrightarrow>
     distinct (map ses_id db) \<and>
     length (filter ses_isActive db) \<le> 1 \<and>
     list_all (\<lambda>s. ses_endDate s > ses_startDate s) db"

text \<open>At most one active session, said of pairs of documents.\<close>

definition active_alike :: "session list \<Rightarrow> bool" where
  "active_alike db \<longleftrightarrow>
     (\<forall>a \<in> set db. \<forall>b \<in> set db. ses_isActive a \<longrightarrow> ses_isActive b \<longrightarrow> ses_id a = ses_id b)"

section \<open>Properties of the number model\<close>

lemma round_half_even_of_int [simp]: "round_half_even (of_int m) = m"
  by (simp add: round_half_even_def)

lemma ilog2_of_int_le:
  assumes "0 < n" and "n < 2 ^ 53"
  shows "ilog2 (of_int n) \<le> 52"
proof -
  have "bitlen n \<le> 53" using assms by (simp add: bitlen_le_iff_power)
  moreover have "(1::rat) \<le> of_int n" using assms by simp
  ultimately show ?thesis by (simp add: ilog2_def)
qed

lemma to_double_of_int:
  assumes "\<bar>n\<bar> < 2 ^ 53"
  shows "to_double (of_int n) = of_int n"
proof (cases "n = 0")
  case True
  then show ?thesis by (simp add: to_double_def)
next
  case False
  define k where "k = nat (52 - ilog2 (of_int \<bar>n\<bar>))"
  have le: "ilog2 (of_int \<bar>n\<bar>) \<le> 52"
    using ilog2_of_int_le[of "\<bar>n\<bar>"] assms False by simp
  have p: "pow2 (ilog2 (of_int \<bar>n\<bar>) - 52) = 1 / 2 ^ k"
  proof (cases "ilog2 (of_int \<bar>n\<bar>) = 52")
    case True
    then show ?thesis by (simp add: pow2_def k_def)
  next
    case False
    with le have "ilog2 (of_int \<bar>n\<bar>) - 52 < 0" by simp
    then show ?thesis by (simp add: pow2_def k_def)
  qed
  have q: "\<bar>of_int n :: rat\<bar> / (1 / 2 ^ k) = of_int (\<bar>n\<bar> * 2 ^ k)"
    by simp
  have "to_double (of_int n) = sgn (of_int n) * of_int (\<bar>n\<bar> * 2 ^ k) * (1 / 2 ^ k)"
    using False p q
    by (simp add: to_double_def Let_def del: of_int_mult of_int_power)
  also have "\<dots> = sgn (of_int n) * of_int \<bar>n\<bar>"
    by simp
  also have "\<dots> = of_int n"
    by (metis of_int_abs sgn_mult_abs)
  finally show ?thesis .
qed

text \<open>
  The exponent found by \<open>ilog2\<close> is not above the number, so rounding to 53 significant
  bits moves a positive number by at most the fraction \<open>2\<^sup>-\<^sup>5\<^sup>3\<close> of it. A quotient of
  two counts of documents therefore never crosses an integer when it is rounded, and
  \<^verbatim>\<open>Math.ceil(n / l)\<close> is the exact ceiling.
\<close>

lemma pow2_pos [simp]: "0 < pow2 e"
  by (simp add: pow2_def)

lemma pow2_Suc: "pow2 (e + 1) = 2 * pow2 e"
proof (cases "0 \<le> e")
  case True
  then show ?thesis by (simp add: pow2_def nat_add_distrib)
next
  case False
  then have "nat (- e) = Suc (nat (- e - 1))" by simp
  then have "(2::rat) ^ nat (- e) = 2 * 2 ^ nat (- e - 1)" by simp
  with False show ?thesis by (auto simp: pow2_def)
qed

lemma pow2_diff_nat: "pow2 (e - int k) = pow2 e / 2 ^ k"
proof (induction k)
  case 0
  then show ?case by simp
next
  case (Suc k)
  have "pow2 (e - int k) = 2 * pow2 (e - int (Suc k))"
    using pow2_Suc[of "e - int (Suc k)"] by (simp add: algebra_simps)
  with Suc show ?case by (simp add: field_simps)
qed

lemma ilog2_lower:
  assumes "0 < q"
  shows "pow2 (ilog2 q) \<le> q"
proof (cases "1 \<le> q")
  case True
  define n where "n = \<lfloor>q\<rfloor>"
  have n: "0 < n" using True by (simp add: n_def)
  have "(2::int) ^ nat (bitlen n - 1) \<le> n" using bitlen_bounds[OF n] by simp
  then have "(of_int (2 ^ nat (bitlen n - 1)) :: rat) \<le> of_int n" by (simp only: of_int_le_iff)
  also have "\<dots> \<le> q" by (simp add: n_def)
  finally have "(2::rat) ^ nat (bitlen n - 1) \<le> q" by simp
  moreover have "0 \<le> bitlen n - 1" using n by (simp add: bitlen_alt_def)
  ultimately show ?thesis using True by (simp add: ilog2_def pow2_def n_def)
next
  case False
  define m where "m = \<lceil>1 / q\<rceil> - 1"
  have r: "1 < 1 / q" using False assms by simp
  have m: "0 < m" using r by (simp add: m_def)
  have "1 / q \<le> of_int (m + 1)" by (simp add: m_def)
  moreover have "m + 1 \<le> 2 ^ nat (bitlen m)" using bitlen_bounds[OF m] by simp
  then have "(of_int (m + 1) :: rat) \<le> of_int (2 ^ nat (bitlen m))" by (simp only: of_int_le_iff)
  ultimately have "1 / q \<le> 2 ^ nat (bitlen m)" by simp
  then have "1 / 2 ^ nat (bitlen m) \<le> q" using assms by (simp add: field_simps)
  moreover have "0 < bitlen m" using m by (simp add: bitlen_alt_def)
  ultimately show ?thesis using False by (simp add: ilog2_def pow2_def m_def)
qed

lemma ilog2_upper:
  assumes "0 < q"
  shows "q < pow2 (ilog2 q + 1)"
proof (cases "1 \<le> q")
  case True
  define n where "n = \<lfloor>q\<rfloor>"
  have n: "0 < n" using True by (simp add: n_def)
  have "n + 1 \<le> 2 ^ nat (bitlen n)" using bitlen_bounds[OF n] by simp
  then have "(of_int (n + 1) :: rat) \<le> of_int (2 ^ nat (bitlen n))" by (simp only: of_int_le_iff)
  moreover have "q < of_int (n + 1)" unfolding n_def by linarith
  ultimately have "q < 2 ^ nat (bitlen n)" by simp
  moreover have "0 \<le> bitlen n" using n by (simp add: bitlen_alt_def)
  ultimately show ?thesis using True by (simp add: ilog2_def pow2_def n_def)
next
  case False
  define m where "m = \<lceil>1 / q\<rceil> - 1"
  have r: "1 < 1 / q" using False assms by simp
  have m: "0 < m" using r by (simp add: m_def)
  have k: "0 < bitlen m" using m by (simp add: bitlen_alt_def)
  have "(2::int) ^ nat (bitlen m - 1) \<le> m" using bitlen_bounds[OF m] by simp
  then have "(of_int (2 ^ nat (bitlen m - 1)) :: rat) \<le> of_int m" by (simp only: of_int_le_iff)
  then have "(2::rat) ^ nat (bitlen m - 1) \<le> of_int m" by simp
  also have "of_int m < 1 / q" unfolding m_def by linarith
  finally have "2 ^ nat (bitlen m - 1) < 1 / q" .
  then have lt: "q < 1 / 2 ^ nat (bitlen m - 1)" using assms by (simp add: field_simps)
  have "pow2 (ilog2 q + 1) = 1 / 2 ^ nat (bitlen m - 1)"
  proof (cases "bitlen m = 1")
    case True
    then show ?thesis using False by (simp add: ilog2_def pow2_def m_def)
  next
    case F: False
    with k have "1 - bitlen m < 0" by simp
    moreover have "nat (- (1 - bitlen m)) = nat (bitlen m - 1)" by simp
    ultimately show ?thesis using False by (simp add: ilog2_def pow2_def m_def)
  qed
  with lt show ?thesis by simp
qed

text \<open>The significand of a positive number has 53 bits: it lies in \<open>[2\<^sup>5\<^sup>2, 2\<^sup>5\<^sup>3)\<close>.\<close>

lemma significand_range:
  assumes "0 < q"
  shows "2 ^ 52 \<le> q / pow2 (ilog2 q - 52) \<and> q / pow2 (ilog2 q - 52) < 2 ^ 53"
proof -
  have p: "pow2 (ilog2 q - 52) = pow2 (ilog2 q) / 2 ^ 52"
    using pow2_diff_nat[of "ilog2 q" 52] by simp
  have pos: "0 < pow2 (ilog2 q)" by simp
  define x where "x = q / pow2 (ilog2 q)"
  have eq: "q / pow2 (ilog2 q - 52) = 2 ^ 52 * x"
    by (simp add: p x_def)
  have lo: "1 \<le> x"
    using ilog2_lower[OF assms] pos by (simp add: x_def)
  have hi: "x < 2"
  proof -
    have "q < 2 * pow2 (ilog2 q)" using ilog2_upper[OF assms] by (simp only: pow2_Suc)
    then show ?thesis using pos by (simp add: x_def field_simps)
  qed
  have "(2::rat) ^ 52 * 1 \<le> 2 ^ 52 * x" using lo by (intro mult_left_mono) simp_all
  moreover have "(2::rat) ^ 52 * x < 2 ^ 52 * 2" using hi by (intro mult_strict_left_mono) simp_all
  ultimately show ?thesis unfolding eq by simp
qed

lemma round_half_even_error: "\<bar>of_int (round_half_even x) - x\<bar> \<le> 1 / 2"
proof -
  have "of_int \<lfloor>x\<rfloor> \<le> x" "x < of_int \<lfloor>x\<rfloor> + 1" by linarith+
  then show ?thesis by (auto simp: round_half_even_def Let_def)
qed

lemma to_double_error:
  assumes "0 < q"
  shows "\<bar>to_double q - q\<bar> \<le> q / 2 ^ 53"
proof -
  define u where "u = pow2 (ilog2 q - 52)"
  have u: "0 < u" by (simp add: u_def)
  have td: "to_double q = of_int (round_half_even (q / u)) * u"
    using assms by (simp add: to_double_def Let_def u_def)
  have "\<bar>to_double q - q\<bar> = \<bar>of_int (round_half_even (q / u)) - q / u\<bar> * u"
  proof -
    have "to_double q - q = (of_int (round_half_even (q / u)) - q / u) * u"
      using u by (simp add: td field_simps)
    then show ?thesis using u by (simp add: abs_mult)
  qed
  also have "\<dots> \<le> (1 / 2) * u"
    using round_half_even_error[of "q / u"] u by (intro mult_right_mono) simp_all
  also have "\<dots> = pow2 (ilog2 q) / 2 ^ 53"
    using pow2_diff_nat[of "ilog2 q" 52] by (simp add: u_def)
  also have "\<dots> \<le> q / 2 ^ 53"
    using ilog2_lower[OF assms] by (simp add: divide_right_mono)
  finally show ?thesis .
qed

lemma js_div_ceiling:
  assumes "0 < l" and "n + l \<le> 2 ^ 53"
  shows "Math_ceil (js_div (of_nat n) (of_nat l)) = \<lceil>(of_nat n :: rat) / of_nat l\<rceil>"
proof (cases "n = 0")
  case True
  then show ?thesis by (simp add: Math_ceil_def js_div_def to_double_def)
next
  case False
  define q :: rat where "q = of_nat n / of_nat l"
  define k where "k = \<lceil>q\<rceil>"
  have lpos: "(0::rat) < of_nat l" using assms by simp
  have qpos: "0 < q" using False assms by (simp add: q_def)
  have ql: "q * of_nat l = of_nat n" using assms by (simp add: q_def)
  have err: "\<bar>to_double q - q\<bar> \<le> q / 2 ^ 53" by (rule to_double_error[OF qpos])
  have nb: "(of_nat n :: rat) < 2 ^ 53"
  proof -
    have "n < 2 ^ 53" using assms by linarith
    then have "(of_nat n :: rat) < of_nat (2 ^ 53)" by (simp only: of_nat_less_iff)
    then show ?thesis by simp
  qed
  have small: "q / 2 ^ 53 < 1 / of_nat l"
  proof -
    have "q / 2 ^ 53 = (of_nat n / 2 ^ 53) / of_nat l" by (simp add: q_def)
    also have "\<dots> < 1 / of_nat l"
      using nb lpos by (intro divide_strict_right_mono) simp_all
    finally show ?thesis .
  qed
  have k1: "of_int k - 1 < q" and k2: "q \<le> of_int k" by (simp_all add: k_def) linarith
  have lower_gap: "1 / of_nat l \<le> q - (of_int k - 1)"
  proof -
    have "(of_int k - 1) * of_nat l < (of_nat n :: rat)"
      using k1 lpos ql by (metis mult_strict_right_mono)
    then have "(of_int ((k - 1) * int l) :: rat) < of_int (int n)" by simp
    then have "(k - 1) * int l < int n" by (simp only: of_int_less_iff)
    then have "(k - 1) * int l + 1 \<le> int n" by simp
    then have "(of_int ((k - 1) * int l + 1) :: rat) \<le> of_int (int n)" by (simp only: of_int_le_iff)
    then have "(of_int k - 1) * of_nat l + 1 \<le> q * of_nat l" using ql by simp
    then have "((of_int k - 1) * of_nat l + 1) / of_nat l \<le> q"
      using lpos by (simp add: field_simps)
    then show ?thesis using lpos by (simp add: field_simps)
  qed
  have lower: "of_int k - 1 < to_double q"
    using err small lower_gap by linarith
  have upper: "to_double q \<le> of_int k"
  proof (cases "q = of_int k")
    case True
    have "0 < k" using qpos True by simp
    moreover have "k < 2 ^ 53"
    proof -
      have "n \<le> l * n" using assms by simp
      then have "(of_nat n :: rat) \<le> of_nat (l * n)" by (simp only: of_nat_le_iff)
      then have "q \<le> of_nat n" using lpos by (simp add: q_def field_simps)
      then have "(of_int k :: rat) < of_int (2 ^ 53)" using True nb by simp
      then show ?thesis by (simp only: of_int_less_iff)
    qed
    ultimately show ?thesis using to_double_of_int[of k] True by simp
  next
    case False
    with k2 have lt: "q < of_int k" by simp
    have "q * of_nat l < of_int k * of_nat l"
      using lt lpos by (simp add: mult_strict_right_mono)
    then have "(of_int (int n) :: rat) < of_int (k * int l)" using ql by simp
    then have "int n < k * int l" by (simp only: of_int_less_iff)
    then have "int n + 1 \<le> k * int l" by simp
    then have "(of_int (int n + 1) :: rat) \<le> of_int (k * int l)" by (simp only: of_int_le_iff)
    then have "q * of_nat l + 1 \<le> of_int k * of_nat l" using ql by simp
    then have gap: "q + 1 / of_nat l \<le> of_int k"
      using lpos by (simp add: field_simps)
    show ?thesis using err small gap by linarith
  qed
  have "\<lceil>to_double q\<rceil> = k"
    using lower upper by (simp add: ceiling_unique)
  then show ?thesis by (simp add: Math_ceil_def js_div_def q_def k_def)
qed

lemma round_half_even_nonneg: "0 \<le> x \<Longrightarrow> 0 \<le> round_half_even x"
  by (simp add: round_half_even_def Let_def)

lemma to_double_nonneg:
  assumes "0 \<le> q"
  shows "0 \<le> to_double q"
proof (cases "q = 0")
  case True
  then show ?thesis by (simp add: to_double_def)
next
  case False
  define e where "e = ilog2 \<bar>q\<bar> - 52"
  have p: "0 < pow2 e" by simp
  then have "0 \<le> \<bar>q\<bar> / pow2 e" by (simp add: less_imp_le)
  then have "0 \<le> round_half_even (\<bar>q\<bar> / pow2 e)" by (rule round_half_even_nonneg)
  then have "(0::rat) \<le> of_int (round_half_even (\<bar>q\<bar> / pow2 e)) * pow2 e"
    using p by (intro mult_nonneg_nonneg) (simp_all add: less_imp_le)
  moreover have "to_double q = of_int (round_half_even (\<bar>q\<bar> / pow2 e)) * pow2 e"
    using False assms by (simp add: to_double_def Let_def e_def)
  ultimately show ?thesis by simp
qed

lemma Math_round_error: "\<bar>of_int (Math_round y) - y\<bar> \<le> 1 / 2"
  unfolding Math_round_def by linarith

text \<open>
  A share \<open>a / b\<close> between 0 and 1, turned into a percentage the way the handlers do:
  the result lies between 0 and 100 and differs from the exact percentage by at most a half
  and \<open>2\<^sup>-\<^sup>4\<^sup>4\<close>.
\<close>

lemma percentage_close:
  assumes "0 \<le> a" and "a \<le> b" and "0 < b"
  shows "0 \<le> Math_round (js_mul (js_div a b) 100) \<and>
     Math_round (js_mul (js_div a b) 100) \<le> 100 \<and>
     \<bar>of_int (Math_round (js_mul (js_div a b) 100)) - 100 * a / b\<bar> \<le> 1 / 2 + 1 / 2 ^ 44"
proof -
  define q where "q = a / b"
  define x where "x = to_double q"
  define y where "y = to_double (x * 100)"
  define r where "r = Math_round y"
  define dl :: rat where "dl = 1 / 2 ^ 53"
  have dl: "0 \<le> dl" "dl \<le> 1" "300 * dl \<le> 1 / 2 ^ 44" "300 * dl < 1 / 2"
    by (simp_all add: dl_def)
  have q01: "0 \<le> q" "q \<le> 1" using assms by (simp_all add: q_def)
  have xq: "\<bar>x - q\<bar> \<le> q * dl"
  proof (cases "q = 0")
    case True
    then show ?thesis by (simp add: x_def to_double_def)
  next
    case False
    with q01 have "0 < q" by simp
    then show ?thesis using to_double_error[of q] by (simp add: x_def dl_def)
  qed
  have x0: "0 \<le> x" unfolding x_def using q01(1) by (rule to_double_nonneg)
  have yz: "\<bar>y - x * 100\<bar> \<le> (x * 100) * dl"
  proof (cases "x = 0")
    case True
    then show ?thesis by (simp add: y_def to_double_def)
  next
    case False
    with x0 have "0 < x * 100" by simp
    then show ?thesis using to_double_error[of "x * 100"] by (simp add: y_def dl_def)
  qed
  have y0: "0 \<le> y" unfolding y_def using x0 by (intro to_double_nonneg) simp
  have qd: "q * dl \<le> dl" using q01 dl(1) by (simp add: mult_left_le_one_le)
  have x1: "x \<le> 2" using xq qd q01 dl(2) by linarith
  have d1: "\<bar>x * 100 - q * 100\<bar> \<le> 100 * dl"
  proof -
    have "x * 100 - q * 100 = (x - q) * 100" by (simp add: algebra_simps)
    then have "\<bar>x * 100 - q * 100\<bar> = \<bar>x - q\<bar> * 100" by (simp only: abs_mult abs_numeral)
    also have "\<dots> \<le> dl * 100" using xq qd by (intro mult_right_mono) simp_all
    finally show ?thesis by simp
  qed
  have d2: "\<bar>y - x * 100\<bar> \<le> 200 * dl"
  proof -
    have "(x * 100) * dl \<le> (2 * 100) * dl" using x1 dl(1) by (intro mult_right_mono) simp_all
    then have "(x * 100) * dl \<le> 200 * dl" by (simp only: mult_2 numeral_plus_numeral) simp
    with yz show ?thesis by linarith
  qed
  have d: "\<bar>y - 100 * q\<bar> \<le> 300 * dl" using d1 d2 by linarith
  have e: "\<bar>of_int r - y\<bar> \<le> 1 / 2" unfolding r_def by (rule Math_round_error)
  have close: "\<bar>of_int r - 100 * q\<bar> \<le> 1 / 2 + 1 / 2 ^ 44" using d e dl(3) by linarith
  have "0 \<le> \<lfloor>y + 1 / 2\<rfloor>" using y0 by simp
  then have r0: "0 \<le> r" by (simp add: r_def Math_round_def)
  have "y + 1 / 2 < 101" using d dl(4) q01 by linarith
  then have "\<lfloor>y + 1 / 2\<rfloor> < 101" by (simp add: floor_less_iff)
  then have r100: "r \<le> 100" by (simp add: r_def Math_round_def)
  have "r = Math_round (js_mul (js_div a b) 100)"
    by (simp add: r_def y_def x_def q_def js_mul_def js_div_def)
  moreover have "100 * q = 100 * a / b" by (simp add: q_def)
  ultimately show ?thesis using r0 r100 close by simp
qed

section \<open>Properties of the numbers read from the query string\<close>

lemma pow2_mono: "a \<le> b \<Longrightarrow> pow2 a \<le> pow2 b"
proof -
  assume "a \<le> b"
  then have "a = b - int (nat (b - a))" by simp
  then have "pow2 a = pow2 b / 2 ^ nat (b - a)" using pow2_diff_nat[of b "nat (b - a)"] by simp
  moreover have "pow2 b / 2 ^ nat (b - a) \<le> pow2 b / 1"
    by (intro divide_left_mono) (simp_all add: less_imp_le)
  ultimately show ?thesis by simp
qed

lemma ilog2_ge:
  assumes "0 < q" and "pow2 k \<le> q"
  shows "k \<le> ilog2 q"
proof (rule ccontr)
  assume "\<not> k \<le> ilog2 q"
  then have "pow2 (ilog2 q + 1) \<le> pow2 k" by (intro pow2_mono) simp
  with ilog2_upper[OF assms(1)] assms(2) show False by simp
qed

lemma ilog2_less:
  assumes "0 < q" and "q < pow2 k"
  shows "ilog2 q < k"
proof (rule ccontr)
  assume "\<not> ilog2 q < k"
  then have "pow2 k \<le> pow2 (ilog2 q)" by (intro pow2_mono) simp
  with ilog2_lower[OF assms(1)] assms(2) show False by simp
qed

lemma jn_of_rat_normal:
  assumes "1 / 2 ^ 53 \<le> \<bar>q\<bar>" and "\<bar>to_double q\<bar> < 2 ^ 54" and "to_double q \<noteq> 0"
  shows "jn_of_rat q = Fin (to_double q)"
proof -
  have "(0::rat) < 1 / 2 ^ 53" by simp
  with assms(1) have q: "0 < \<bar>q\<bar>" by linarith
  have "pow2 (- 53) = 1 / 2 ^ 53" by (simp add: pow2_def)
  then have "- 53 \<le> ilog2 \<bar>q\<bar>" using ilog2_ge[OF q, of "- 53"] assms(1) by simp
  then have lo: "\<not> ilog2 \<bar>q\<bar> < - 1022" by simp
  have "pow2 54 = 2 ^ 54" by (simp add: pow2_def)
  then have "ilog2 \<bar>to_double q\<bar> < 54" using ilog2_less[of "\<bar>to_double q\<bar>" 54] assms(2,3) by simp
  then have hi: "\<not> 1024 \<le> ilog2 \<bar>to_double q\<bar>" by simp
  show ?thesis using q lo hi by (simp add: jn_of_rat_def Let_def)
qed

lemma jn_of_rat_of_int:
  assumes "\<bar>n\<bar> < 2 ^ 53"
  shows "jn_of_rat (of_int n) = Fin (of_int n)"
proof (cases "n = 0")
  case True
  then show ?thesis by (simp add: jn_of_rat_def)
next
  case False
  have td: "to_double (of_int n) = of_int n" using assms by (rule to_double_of_int)
  have "(1::rat) \<le> \<bar>of_int n\<bar>" using False by (simp flip: of_int_abs)
  moreover have "(1::rat) / 2 ^ 53 \<le> 1" by simp
  ultimately have lo: "1 / 2 ^ 53 \<le> \<bar>of_int n :: rat\<bar>" by linarith
  have "\<bar>of_int n :: rat\<bar> < 2 ^ 53"
    using assms by (metis of_int_abs of_int_less_numeral_power_cancel_iff)
  then have hi: "\<bar>to_double (of_int n)\<bar> < 2 ^ 54" unfolding td by simp
  have nz: "to_double (of_int n) \<noteq> 0" unfolding td using False by simp
  show ?thesis using jn_of_rat_normal[OF lo hi nz] td by simp
qed

lemma jn_of_rat_of_nat: "n < 2 ^ 53 \<Longrightarrow> jn_of_rat (of_nat n) = Fin (of_nat n)"
  using jn_of_rat_of_int[of "int n"] by simp

lemma jn_lt_Fin [simp]: "jn_lt (Fin a) (Fin b) \<longleftrightarrow> a < b"
  by (simp add: jn_lt_def)



text \<open>
  \<^verbatim>\<open>Math.ceil(total / limit)\<close> for a count of documents and a positive whole limit is the
  exact ceiling of the quotient.
\<close>

lemma jn_ceil_div_nat:
  assumes "0 < l" and "n + l \<le> 2 ^ 53"
  shows "jn_ceil (jn_div (Fin (of_nat n)) (Fin (of_nat l))) = Fin (of_int \<lceil>(of_nat n :: rat) / of_nat l\<rceil>)"
proof (cases "n = 0")
  case True
  then show ?thesis using assms(1) by (simp add: jn_div_def jn_signed_zero_def)
next
  case False
  define q :: rat where "q = of_nat n / of_nat l"
  have qpos: "0 < q" using False assms(1) by (simp add: q_def)
  have l53: "(of_nat l :: rat) \<le> 2 ^ 53"
    using assms(2) by (metis add_leD2 of_nat_le_iff of_nat_numeral of_nat_power)
  have n53: "(of_nat n :: rat) \<le> 2 ^ 53"
    using assms(2) by (metis add_leD1 of_nat_le_iff of_nat_numeral of_nat_power)
  have "1 / (of_nat l :: rat) \<le> q"
    using False assms(1) by (simp add: q_def divide_right_mono)
  moreover have "1 / 2 ^ 53 \<le> 1 / (of_nat l :: rat)"
    using l53 assms(1) by (intro divide_left_mono) simp_all
  ultimately have lo: "1 / 2 ^ 53 \<le> \<bar>q\<bar>" using qpos by simp
  have "q \<le> of_nat n" using assms(1) False by (simp add: q_def field_simps)
  then have q53: "q \<le> 2 ^ 53" using n53 by simp
  have "\<bar>to_double q - q\<bar> \<le> q / 2 ^ 53" using qpos by (rule to_double_error)
  moreover have "q / 2 ^ 53 \<le> 1" using q53 by simp
  ultimately have "to_double q \<le> 2 ^ 53 + 1" using q53 by linarith
  moreover have nn: "0 \<le> to_double q" using qpos by (intro to_double_nonneg) simp
  ultimately have hi: "\<bar>to_double q\<bar> < 2 ^ 54" by simp
  have c: "\<lceil>to_double q\<rceil> = \<lceil>q\<rceil>"
    using js_div_ceiling[OF assms] by (simp add: Math_ceil_def js_div_def q_def)
  have cp: "0 < \<lceil>q\<rceil>" using qpos by simp
  have nz: "to_double q \<noteq> 0"
  proof
    assume "to_double q = 0"
    then have "\<lceil>to_double q\<rceil> = 0" by simp
    with c cp show False by simp
  qed
  have d: "jn_div (Fin (of_nat n)) (Fin (of_nat l)) = Fin (to_double q)"
    using jn_of_rat_normal[OF lo hi nz] False assms(1) by (simp add: jn_div_def q_def)
  show ?thesis using nn c by (simp add: d q_def)
qed



lemma cursor_page_subset: "cursor_page skip limit xs = Some ys \<Longrightarrow> set ys \<subseteq> set xs"
  by (auto simp: cursor_page_def Let_def split: if_splits dest: in_set_takeD in_set_dropD)

text \<open>
  A parameter that is absent reads as its default, and a string of decimal digits reads as
  the number it writes.
\<close>

lemma reads_as_absent: "reads_as d None d"
  by (simp add: reads_as_def param_number_def param_parseInt_def)

lemma is_digitD:
  assumes "is_digit c"
  shows "\<not> is_space c" "c \<noteq> CHR ''-''" "c \<noteq> CHR ''+''" "c \<noteq> CHR ''.''" "c \<noteq> CHR ''I''"
    "c \<notin> set ''xX''" "c \<notin> set ''oO''" "c \<notin> set ''bB''" "is_radix_digit 10 c"
  using assms by (auto simp: is_digit_def is_space_def is_radix_digit_def digit_of_def)

lemma trim_id:
  assumes "s \<noteq> []" and "\<not> is_space (hd s)" and "\<not> is_space (last s)"
  shows "trim s = s"
proof -
  have "dropWhile is_space s = s" using assms(1,2) by (cases s) simp_all
  moreover have "dropWhile is_space (rev s) = rev s"
    using assms(1,3) by (cases "rev s") (simp_all add: last_rev[symmetric] hd_rev)
  ultimately show ?thesis by (simp add: trim_def)
qed

lemma digits_read_as:
  assumes "s \<noteq> []" and "list_all is_digit s" and "radix_val 10 s < 2 ^ 53"
  shows "reads_as d (Some s) (radix_val 10 s)"
proof -
  obtain c r where s: "s = c # r" using assms(1) by (cases s) auto
  have c: "is_digit c" using assms(2) s by simp
  have lst: "is_digit (last s)" using assms(1,2) by (simp add: list_all_iff)
  have all: "\<forall>x \<in> set s. is_digit x" using assms(2) by (simp add: list_all_iff)
  have t: "trim s = s"
    using trim_id[OF assms(1)] is_digitD(1)[OF c] is_digitD(1)[OF lst] s by simp
  have np: "\<not> radix_prefix cs s" if "\<And>x. is_digit x \<Longrightarrow> x \<notin> set cs" for cs
  proof (cases r)
    case Nil
    then show ?thesis by (simp add: radix_prefix_def s)
  next
    case (Cons b r')
    then have "is_digit b" using all s by simp
    then show ?thesis using that Cons by (simp add: radix_prefix_def s)
  qed
  have sg: "strip_sign s = (False, s)"
    using is_digitD(2,3)[OF c] by (simp add: strip_sign_def s)
  have inf: "s \<noteq> ''Infinity''" using is_digitD(5)[OF c] by (auto simp: s)
  have tw: "takeWhile is_digit s = s" "dropWhile is_digit s = []"
    using all by simp_all
  have dec: "decimal_of s = Some (of_nat (radix_val 10 s))"
    using assms(1) by (simp add: decimal_of_def tw exponent_of_def pow10_def)
  have num: "StringToNumber s = Fin (of_nat (radix_val 10 s))"
  proof -
    have "StringToNumber s =
        (if (of_nat (radix_val 10 s) :: rat) = 0 then jn_signed_zero False
         else jn_of_rat (of_nat (radix_val 10 s)))"
      using assms(1) np[of "''xX''"] np[of "''oO''"] np[of "''bB''"] is_digitD(6,7,8) inf
      by (simp add: StringToNumber_def t sg dec Let_def)
    then show ?thesis
      using jn_of_rat_of_nat[OF assms(3)] by (simp add: jn_signed_zero_def)
  qed
  have ds: "dropWhile is_space s = s" using is_digitD(1)[OF c] by (simp add: s)
  have tr: "takeWhile (is_radix_digit 10) s = s"
    using all is_digitD(9) by simp
  have pi: "parseInt s = Fin (of_nat (radix_val 10 s))"
  proof -
    have "parseInt s =
        (if radix_val 10 s = 0 then jn_signed_zero False
         else jn_of_rat (of_nat (radix_val 10 s)))"
      using assms(1) np[of "''xX''"] is_digitD(6)
      by (simp add: parseInt_def ds sg tr Let_def)
    then show ?thesis
      using jn_of_rat_of_nat[OF assms(3)] by (simp add: jn_signed_zero_def)
  qed
  show ?thesis by (simp add: reads_as_def param_number_def param_parseInt_def num pi)
qed

text \<open>
  The two readings differ on other strings: \<^verbatim>\<open>1.5\<close> is 1 for \<^verbatim>\<open>parseInt\<close> and one and
  a half in arithmetic, \<^verbatim>\<open>12abc\<close> is 12 and NaN, the empty string is NaN and 0.
\<close>

lemma readings_differ:
  "parseInt ''1.5'' = Fin 1 \<and> StringToNumber ''1.5'' = Fin (3 / 2) \<and>
   parseInt ''12abc'' = Fin 12 \<and> StringToNumber ''12abc'' = NaN \<and>
   parseInt [] = NaN \<and> StringToNumber [] = Fin 0"
  by code_simp

section \<open>Properties of the library operations\<close>












section \<open>Properties of exam marks\<close>

lemma calculateGrade_spec: "calculateGrade p = spec_grade p"
  by (simp add: calculateGrade_def spec_grade_def grade_thresholds_def)

lemma examMark_save_cases:
  "examMark_save m =
     (case examMark_validate m of
        Inl e \<Rightarrow> Inl e
      | Inr m1 \<Rightarrow>
          if em_marksObtained m > em_totalMarks m
            then Inl (HookError ''Marks obtained cannot be greater than total marks'')
          else Inr (examMark_calculate m))"
  by (auto simp: examMark_save_def examMark_validate_def examMark_check_marks_def
      split: sum.splits option.splits if_splits)

lemma examMark_validate_Inr:
  "examMark_validate m = Inr m' \<Longrightarrow> m' = m \<and> 0 \<le> em_marksObtained m \<and> 1 \<le> em_totalMarks m"
  by (auto simp: examMark_validate_def split: if_splits option.splits)

lemma examMark_validate_cases:
  "examMark_validate m = Inr m \<or> (\<exists>e. examMark_validate m = Inl e)"
  by (auto simp: examMark_validate_def split: option.splits)

text \<open>
  Claim C2. A mark is saved exactly when it passes the schema validators and its
  \<open>marksObtained\<close> does not exceed its \<open>totalMarks\<close>; every other save is refused. A mark
  that is saved and not marked absent is stored with percentage
  \<^verbatim>\<open>Math.round((marksObtained / totalMarks) * 100)\<close>, with \<open>isPassed\<close> saying whether
  \<open>marksObtained \<ge> passingMarks\<close>, and with the grade that the threshold table of the
  specification gives for that percentage, its other fields unchanged; the percentage is a
  whole number between 0 and 100, within a half (and the rounding error of the two double
  operations) of the exact percentage. A mark that is saved and marked absent is stored
  with marks 0, percentage 0, grade F and not passed, whatever marks were submitted.
\<close>

theorem examMark_save_grading:
  assumes "p = Math_round (js_mul (js_div (em_marksObtained m) (em_totalMarks m)) 100)"
  shows "(examMark_validate m = Inr m \<and> em_marksObtained m \<le> em_totalMarks m \<longrightarrow>
      examMark_save m =
        Inr (if em_isAbsent m
             then m\<lparr>em_marksObtained := 0, em_percentage := Some 0, em_grade := ''F'',
                    em_isPassed := False\<rparr>
             else m\<lparr>em_percentage := Some (of_int p),
                    em_isPassed := (em_marksObtained m \<ge> em_passingMarks m),
                    em_grade := spec_grade (of_int p)\<rparr>) \<and>
      0 \<le> em_marksObtained m \<and> 1 \<le> em_totalMarks m \<and>
      0 \<le> p \<and> p \<le> 100 \<and>
      \<bar>of_int p - 100 * em_marksObtained m / em_totalMarks m\<bar> \<le> 1 / 2 + 1 / 2 ^ 44) \<and>
    (\<not> (examMark_validate m = Inr m \<and> em_marksObtained m \<le> em_totalMarks m) \<longrightarrow>
      (\<exists>e. examMark_save m = Inl e))"
proof (intro conjI impI)
  assume a: "examMark_validate m = Inr m \<and> em_marksObtained m \<le> em_totalMarks m"
  then have v: "0 \<le> em_marksObtained m" "1 \<le> em_totalMarks m"
    and le: "em_marksObtained m \<le> em_totalMarks m"
    using examMark_validate_Inr[of m m] by simp_all
  from v(2) have pos: "0 < em_totalMarks m" by simp
  note close = percentage_close[OF v(1) le pos, folded assms]
  from a have s: "examMark_save m = Inr (examMark_calculate m)"
    by (simp add: examMark_save_cases)
  show "examMark_save m =
        Inr (if em_isAbsent m
             then m\<lparr>em_marksObtained := 0, em_percentage := Some 0, em_grade := ''F'',
                    em_isPassed := False\<rparr>
             else m\<lparr>em_percentage := Some (of_int p),
                    em_isPassed := (em_marksObtained m \<ge> em_passingMarks m),
                    em_grade := spec_grade (of_int p)\<rparr>)"
    by (simp add: s examMark_calculate_def Let_def calculateGrade_spec assms)
  show "0 \<le> em_marksObtained m" "1 \<le> em_totalMarks m" by (rule v)+
  show "0 \<le> p" "p \<le> 100"
    "\<bar>of_int p - 100 * em_marksObtained m / em_totalMarks m\<bar> \<le> 1 / 2 + 1 / 2 ^ 44"
    using close by simp_all
next
  assume n: "\<not> (examMark_validate m = Inr m \<and> em_marksObtained m \<le> em_totalMarks m)"
  show "\<exists>e. examMark_save m = Inl e"
  proof (cases "examMark_validate m = Inr m")
    case True
    with n show ?thesis by (simp add: examMark_save_cases)
  next
    case False
    with examMark_validate_cases[of m] obtain e where "examMark_validate m = Inl e" by blast
    then show ?thesis by (simp add: examMark_save_cases)
  qed
qed

text \<open>The percentage of 72 marks out of 100, computed in double arithmetic.\<close>

lemma scenario_percentage: "Math_round (js_mul (js_div 72 100) 100) = 72"
  by code_simp

text \<open>
  The scenario of the specification: 72 marks out of 100 with 40 to pass, submitted with
  a placeholder grade, are stored with percentage 72, grade B+ and passed. The same marks
  submitted as absent are stored with marks 0, percentage 0, grade F and not passed. And
  120 marks out of 100 are refused.
\<close>

theorem examMark_save_grading_witness:
  "examMark_save \<lparr>em_marksObtained = 72, em_totalMarks = 100, em_passingMarks = 40,
       em_grade = ''F'', em_percentage = None, em_isPassed = False, em_isAbsent = False\<rparr>
     = Inr \<lparr>em_marksObtained = 72, em_totalMarks = 100, em_passingMarks = 40,
       em_grade = ''B+'', em_percentage = Some 72, em_isPassed = True, em_isAbsent = False\<rparr> \<and>
   examMark_save \<lparr>em_marksObtained = 72, em_totalMarks = 100, em_passingMarks = 40,
       em_grade = ''A'', em_percentage = Some 72, em_isPassed = True, em_isAbsent = True\<rparr>
     = Inr \<lparr>em_marksObtained = 0, em_totalMarks = 100, em_passingMarks = 40,
       em_grade = ''F'', em_percentage = Some 0, em_isPassed = False, em_isAbsent = True\<rparr> \<and>
   (\<exists>e. examMark_save \<lparr>em_marksObtained = 120, em_totalMarks = 100, em_passingMarks = 40,
       em_grade = ''F'', em_percentage = None, em_isPassed = False, em_isAbsent = True\<rparr>
     = Inl e)"
proof -
  let ?m = "\<lparr>em_marksObtained = 72, em_totalMarks = 100, em_passingMarks = 40,
       em_grade = ''F'', em_percentage = None, em_isPassed = False, em_isAbsent = False\<rparr>"
  let ?a = "\<lparr>em_marksObtained = 72, em_totalMarks = 100, em_passingMarks = 40,
       em_grade = ''A'', em_percentage = Some 72, em_isPassed = True, em_isAbsent = True\<rparr>"
  let ?r = "\<lparr>em_marksObtained = 120, em_totalMarks = 100, em_passingMarks = 40,
       em_grade = ''F'', em_percentage = None, em_isPassed = False, em_isAbsent = True\<rparr>"
  have g: "spec_grade 72 = ''B+''"
    by (simp add: spec_grade_def grade_thresholds_def)
  have "examMark_validate ?m = Inr ?m"
    by (simp add: examMark_validate_def grade_enum_def)
  then have 1: "examMark_save ?m = Inr \<lparr>em_marksObtained = 72, em_totalMarks = 100,
       em_passingMarks = 40, em_grade = ''B+'', em_percentage = Some 72, em_isPassed = True,
       em_isAbsent = False\<rparr>"
    using examMark_save_grading[where m = ?m and p = 72] g
    by (simp add: scenario_percentage)
  have "examMark_validate ?a = Inr ?a"
    by (simp add: examMark_validate_def grade_enum_def)
  then have 2: "examMark_save ?a = Inr \<lparr>em_marksObtained = 0, em_totalMarks = 100,
       em_passingMarks = 40, em_grade = ''F'', em_percentage = Some 0, em_isPassed = False,
       em_isAbsent = True\<rparr>"
    using examMark_save_grading[where m = ?a and p = 72]
    by (simp add: scenario_percentage)
  have 3: "\<exists>e. examMark_save ?r = Inl e"
    using examMark_save_grading[where m = ?r, OF refl] by simp
  from 1 2 3 show ?thesis by (intro conjI)
qed

text \<open>
  The percentage is the rounded double, not the rounded exact quotient: 23 marks out of 40
  are 57.5 percent, the double product is just below that, and 57 is stored.
\<close>

lemma percentage_of_23_in_40:
  "Math_round (js_mul (js_div 23 40) 100) = 57 \<and> \<lfloor>(23 / 40 * 100 + 1 / 2 :: rat)\<rfloor> = 58"
  by code_simp

section \<open>Properties of fee payments\<close>


lemma feePayment_validate_cases:
  "feePayment_validate p = Inr p \<or> (\<exists>e. feePayment_validate p = Inl e)"
  by (auto simp: feePayment_validate_def)

lemma feePayment_cast_fields [simp]:
  "fee_dueAmount (feePayment_cast p) = fee_dueAmount p"
  "fee_paidAmount (feePayment_cast p) = fee_paidAmount p"
  "fee_lateFee (feePayment_cast p) = fee_lateFee p"
  "fee_discount (feePayment_cast p) = fee_discount p"
  "fee_totalAmount (feePayment_cast p) = fee_totalAmount p"
  "fee_dueDate (feePayment_cast p) = fee_dueDate p"
  "fee_status (feePayment_cast p) = fee_status p"
  by (simp_all add: feePayment_cast_def)

lemma feePayment_save_Inr:
  "feePayment_save now receipt p = Inr p' \<longleftrightarrow>
     feePayment_validate (feePayment_cast p) = Inr (feePayment_cast p) \<and>
     p' = feePayment_pre_save now receipt (feePayment_cast p)"
  using feePayment_validate_cases[of "feePayment_cast p"]
  by (auto simp: feePayment_save_def split: sum.splits)






lemma js_total_exact:
  assumes "0 \<le> a" "0 \<le> l" "0 \<le> d" "a + l < 2 ^ 53" "d < 2 ^ 53"
  shows "js_sub (js_add (of_int a) (of_int l)) (of_int d) = of_int (a + l - d)"
proof -
  have "js_add (of_int a) (of_int l) = of_int (a + l)"
    using assms to_double_of_int[of "a + l"] by (simp add: js_add_def)
  moreover have "\<bar>a + l - d\<bar> < 2 ^ 53" using assms by linarith
  ultimately show ?thesis
    using to_double_of_int[of "a + l - d"] by (simp add: js_sub_def)
qed




lemma feePayment_pre_save_not_cancelled:
  "fee_status (feePayment_pre_save now receipt p) \<noteq> Cancelled"
  by (simp add: feePayment_pre_save_def Let_def)

lemma feePayment_pre_save_status_in:
  "fee_status (feePayment_pre_save now receipt p) \<in> {Paid, Partial, Overdue, Pending}"
  by (simp add: feePayment_pre_save_def Let_def)

lemma feePayment_pre_save_ignores_status:
  "feePayment_pre_save now receipt (p\<lparr>fee_status := s\<rparr>) = feePayment_pre_save now receipt p"
  by (simp add: feePayment_pre_save_def Let_def)

lemma feePayment_cast_status:
  "feePayment_cast (p\<lparr>fee_status := s\<rparr>) = (feePayment_cast p)\<lparr>fee_status := s\<rparr>"
  by (simp add: feePayment_cast_def)

lemma feePayment_save_ignores_status:
  "feePayment_save now receipt (p\<lparr>fee_status := s\<rparr>) = feePayment_save now receipt p"
  unfolding feePayment_save_def feePayment_cast_status
  by (simp add: feePayment_validate_def feePayment_pre_save_ignores_status)

lemma feePayment_create_not_cancelled:
  "list_all (\<lambda>q. fee_status q \<noteq> Cancelled) db \<Longrightarrow>
   feePayment_create db now receipt p = Inr db' \<Longrightarrow>
   list_all (\<lambda>q. fee_status q \<noteq> Cancelled) db'"
  by (auto simp: feePayment_create_def feePayment_save_Inr feePayment_pre_save_not_cancelled
      split: sum.splits)

lemma feePayment_creates_not_cancelled:
  "list_all (\<lambda>q. fee_status q \<noteq> Cancelled) db \<Longrightarrow>
   list_all (\<lambda>q. fee_status q \<noteq> Cancelled) (feePayment_creates db calls)"
proof (induction db calls rule: feePayment_creates.induct)
  case (1 db)
  then show ?case by simp
next
  case (2 db now receipt p rest)
  then show ?case
    by (cases "feePayment_create db now receipt p")
       (auto dest: feePayment_create_not_cancelled)
qed

text \<open>
  Claim C10. The status a document carries when it is saved has no influence on what is
  stored; a saved payment has one of the statuses Paid, Partial, Overdue and Pending, never
  Cancelled; and no run of \<^verbatim>\<open>create\<close> calls puts a Cancelled payment into the
  collection.
\<close>

theorem feePayment_never_cancelled:
  "feePayment_save now receipt (p\<lparr>fee_status := s\<rparr>) = feePayment_save now receipt p \<and>
   (case feePayment_save now receipt p of
      Inl e \<Rightarrow> True
    | Inr p' \<Rightarrow> fee_status p' \<in> {Paid, Partial, Overdue, Pending} \<and> fee_status p' \<noteq> Cancelled) \<and>
   list_all (\<lambda>q. fee_status q \<noteq> Cancelled) (feePayment_creates [] calls)"
proof -
  have "list_all (\<lambda>q. fee_status q \<noteq> Cancelled) (feePayment_creates [] calls)"
    using feePayment_creates_not_cancelled[of "[]" calls] by simp
  then show ?thesis
    using feePayment_save_ignores_status[where now = now and receipt = receipt and p = p and s = s]
    by (auto simp: feePayment_save_Inr feePayment_pre_save_def Let_def split: sum.splits)
qed


text \<open>A payment submitted as Cancelled, with nothing paid and no due date, is stored Pending.\<close>

theorem feePayment_never_cancelled_witness:
  "feePayment_save 1700000000000 ''RCP2023110002''
      \<lparr>fee_dueAmount = 500, fee_paidAmount = 0, fee_lateFee = 0, fee_discount = 0,
       fee_totalAmount = 0, fee_dueDate = None, fee_receiptNumber = Some ''RCP2023110002'',
       fee_status = Cancelled\<rparr>
    = Inr \<lparr>fee_dueAmount = 500, fee_paidAmount = 0, fee_lateFee = 0, fee_discount = 0,
       fee_totalAmount = 0, fee_dueDate = None, fee_receiptNumber = Some ''RCP2023110002'',
       fee_status = Pending\<rparr>"
proof -
  have tot: "js_sub (js_add 0 0) 0 = 0"
    using js_total_exact[of 0 0 0] by simp
  have tr: "trim ''RCP2023110002'' = ''RCP2023110002''" by code_simp
  show ?thesis
    using feePayment_never_cancelled[of 1700000000000 "''RCP2023110002''" Cancelled
        "\<lparr>fee_dueAmount = 500, fee_paidAmount = 0, fee_lateFee = 0, fee_discount = 0,
         fee_totalAmount = 0, fee_dueDate = None, fee_receiptNumber = Some ''RCP2023110002'',
         fee_status = Cancelled\<rparr>" "[]"]
    by (simp add: feePayment_save_def feePayment_validate_def feePayment_cast_def
        feePayment_pre_save_def Let_def tot tr)
qed

section \<open>Properties of the pagination envelope\<close>

lemma total_pages_exact:
  "0 < l \<Longrightarrow> n + l \<le> 2 ^ 53 \<Longrightarrow>
   total_pages n (Fin (of_nat l)) = Fin (of_int \<lceil>(of_nat n :: rat) / of_nat l\<rceil>)"
  by (simp add: total_pages_def jn_ceil_div_nat)

lemma jn_lt_nat_int: "jn_lt (Fin (of_nat p)) (Fin (of_int c)) \<longleftrightarrow> int p < c"
proof -
  have "(of_nat p :: rat) = of_int (int p)" by simp
  then show ?thesis unfolding jn_lt_Fin by (simp only: of_int_less_iff)
qed

lemma jn_lt_one_nat: "jn_lt (Fin 1) (Fin (of_nat p)) \<longleftrightarrow> 1 < p"
  unfolding jn_lt_Fin by simp

lemma envelope_with_next_exact:
  assumes "reads_as 1 page_param p" and "reads_as dl limit_param l"
    and "0 < l" and "n + l \<le> 2 ^ 53"
  shows "envelope_with_next dl page_param limit_param n =
     \<lparr>pg_current = JNumber (Fin (of_nat p)),
      pg_pages = Fin (of_int \<lceil>(of_nat n :: rat) / of_nat l\<rceil>), pg_total = n,
      pg_hasNext = Some (int p < \<lceil>(of_nat n :: rat) / of_nat l\<rceil>), pg_hasPrev = Some (1 < p),
      pg_limit = None\<rparr>"
proof -
  have pn: "param_number 1 page_param = Fin (of_nat p)"
    and pp: "param_parseInt 1 page_param = Fin (of_nat p)"
    and ln: "param_number dl limit_param = Fin (of_nat l)"
    using assms(1,2) by (simp_all add: reads_as_def)
  show ?thesis
    unfolding envelope_with_next_def pn pp ln total_pages_exact[OF assms(3,4)]
      jn_lt_nat_int jn_lt_one_nat by simp
qed

text \<open>
  Claim C9, as amended. Let \<^verbatim>\<open>page\<close> and \<^verbatim>\<open>limit\<close> each be absent or read as a
  natural number by \<^verbatim>\<open>parseInt\<close> and by numeric coercion alike, as a string of decimal
  digits is; let \<open>page\<close> default to 1 and \<open>limit\<close> to 10 (to 20 for the inbox, sent and
  starred message lists), the limit be positive and there be fewer than \<open>2\<^sup>5\<^sup>3\<close>
  documents. Then every list endpoint reports the requested page as \<open>current\<close> (the
  student list sends the parameter back as it came, the others the number), the exact
  \<open>\<lceil>total / limit\<rceil>\<close> as \<open>pages\<close> and the count as \<open>total\<close>; all but the student and
  user lists report \<open>hasNext = (page < pages)\<close> and \<open>hasPrev = (page > 1)\<close>, and these
  two send neither field; the user list alone reports the limit.
\<close>

theorem list_pagination_envelope:
  assumes "reads_as 1 page_param page"
    and "reads_as (if e \<in> {GetInbox, GetSent, GetStarred} then 20 else 10) limit_param limit"
    and "0 < limit" and "count + limit \<le> 2 ^ 53"
  shows "pg_current (list_pagination e page_param limit_param count)
       = (if e = GetStudents
          then (case page_param of None \<Rightarrow> JNumber (Fin 1) | Some s \<Rightarrow> JString s)
          else JNumber (Fin (of_nat page))) \<and>
     pg_pages (list_pagination e page_param limit_param count)
       = Fin (of_int \<lceil>(of_nat count :: rat) / of_nat limit\<rceil>) \<and>
     pg_total (list_pagination e page_param limit_param count) = count \<and>
     pg_hasNext (list_pagination e page_param limit_param count)
       = (if e \<in> {GetStudents, GetUsers} then None
          else Some (int page < \<lceil>(of_nat count :: rat) / of_nat limit\<rceil>)) \<and>
     pg_hasPrev (list_pagination e page_param limit_param count)
       = (if e \<in> {GetStudents, GetUsers} then None else Some (1 < page)) \<and>
     pg_limit (list_pagination e page_param limit_param count)
       = (if e = GetUsers then Some (Fin (of_nat limit)) else None)"
proof -
  have l: "reads_as (default_limit e) limit_param limit"
    using assms(2) by (simp add: default_limit_def)
  have pp: "param_parseInt 1 page_param = Fin (of_nat page)"
    using assms(1) by (simp add: reads_as_def)
  note tp = total_pages_exact[OF assms(3,4)]
  show ?thesis
  proof (cases "e = GetStudents")
    case True
    then have "param_number 10 limit_param = Fin (of_nat limit)"
      using l by (simp add: reads_as_def default_limit_def)
    then show ?thesis using True by (simp add: list_pagination_def envelope_students_def tp)
  next
    case False
    show ?thesis
    proof (cases "e = GetUsers")
      case True
      then have "param_parseInt 10 limit_param = Fin (of_nat limit)"
        using l by (simp add: reads_as_def default_limit_def)
      then show ?thesis using True pp by (simp add: list_pagination_def envelope_users_def tp)
    next
      case F: False
      have "list_pagination e page_param limit_param count =
          envelope_with_next (default_limit e) page_param limit_param count"
        using False F by (simp add: list_pagination_def)
      then show ?thesis
        using False F envelope_with_next_exact[OF assms(1) l assms(3,4)] by simp
    qed
  qed
qed

text \<open>
  The second page of 25 attendance documents, ten a page, and the third page of 12 users,
  five a page.
\<close>

theorem list_pagination_envelope_witness:
  "list_pagination GetAttendance (Some ''2'') None 25 =
     \<lparr>pg_current = JNumber (Fin 2), pg_pages = Fin 3, pg_total = 25, pg_hasNext = Some True,
      pg_hasPrev = Some True, pg_limit = None\<rparr> \<and>
   list_pagination GetUsers (Some ''3'') (Some ''5'') 12 =
     \<lparr>pg_current = JNumber (Fin 3), pg_pages = Fin 3, pg_total = 12, pg_hasNext = None,
      pg_hasPrev = None, pg_limit = Some (Fin 5)\<rparr>"
proof -
  have c: "\<lceil>(of_nat 25 :: rat) / of_nat 10\<rceil> = 3" "\<lceil>(of_nat 12 :: rat) / of_nat 5\<rceil> = 3"
    by (rule ceiling_unique; simp)+
  have r: "reads_as 1 (Some ''2'') 2" "reads_as 10 None 10"
    "reads_as 1 (Some ''3'') 3" "reads_as 10 (Some ''5'') 5"
    by code_simp+
  have 1: "list_pagination GetAttendance (Some ''2'') None 25 =
     \<lparr>pg_current = JNumber (Fin 2), pg_pages = Fin 3, pg_total = 25, pg_hasNext = Some True,
      pg_hasPrev = Some True, pg_limit = None\<rparr>"
    using list_pagination_envelope[where page = 2 and page_param = "Some ''2''" and limit = 10
        and limit_param = None and e = GetAttendance and count = 25] c r
    by (cases "list_pagination GetAttendance (Some ''2'') None 25") simp
  have 2: "list_pagination GetUsers (Some ''3'') (Some ''5'') 12 =
     \<lparr>pg_current = JNumber (Fin 3), pg_pages = Fin 3, pg_total = 12, pg_hasNext = None,
      pg_hasPrev = None, pg_limit = Some (Fin 5)\<rparr>"
    using list_pagination_envelope[where page = 3 and page_param = "Some ''3''" and limit = 5
        and limit_param = "Some ''5''" and e = GetUsers and count = 12] c r
    by (cases "list_pagination GetUsers (Some ''3'') (Some ''5'') 12") simp
  from 1 2 show ?thesis by (rule conjI)
qed

text \<open>
  Claim C9 as stated fails: fifteen messages listed without a \<open>limit\<close> make one page,
  not the two of a default limit of 10, and the envelope of the student list has no
  \<open>hasNext\<close> and no \<open>hasPrev\<close>.
\<close>

theorem list_pagination_counterexample:
  "pg_pages (list_pagination GetInbox None None 15) \<noteq> Fin (of_int \<lceil>(15 :: rat) / 10\<rceil>) \<and>
   pg_hasNext (list_pagination GetStudents (Some ''1'') (Some ''10'') 15)
     \<noteq> Some (1 < \<lceil>(15 :: rat) / 10\<rceil>) \<and>
   pg_hasPrev (list_pagination GetStudents (Some ''1'') (Some ''10'') 15) \<noteq> Some ((1::nat) > 1)"
proof -
  have "total_pages 15 (Fin (of_nat 20)) = Fin (of_int \<lceil>(of_nat 15 :: rat) / of_nat 20\<rceil>)"
    by (rule total_pages_exact) simp_all
  moreover have "\<lceil>(of_nat 15 :: rat) / of_nat 20\<rceil> = 1"
    by (rule ceiling_unique) simp_all
  ultimately have "total_pages 15 (Fin 20) = Fin 1" by simp
  moreover have "\<lceil>(15 :: rat) / 10\<rceil> = 2"
    by (rule ceiling_unique) simp_all
  ultimately show ?thesis
    by (simp add: list_pagination_def default_limit_def param_number_def
        envelope_with_next_def envelope_students_def)
qed

text \<open>
  Outside the amended claim, where the two readings of a parameter differ, the fields of
  one envelope follow different readings: for \<^verbatim>\<open>page=1.5\<close> \<open>current\<close> is 1, while
  \<open>hasPrev\<close> holds because 1.5 is greater than 1.
\<close>

lemma list_pagination_fractional_page:
  "list_pagination GetAttendance (Some ''1.5'') None 25 =
     \<lparr>pg_current = JNumber (Fin 1), pg_pages = Fin 3, pg_total = 25, pg_hasNext = Some True,
      pg_hasPrev = Some True, pg_limit = None\<rparr>"
  by code_simp

section \<open>Properties of the attendance percentage\<close>

lemma Math_round_of_int: "Math_round (of_int n) = n"
  unfolding Math_round_def by (rule floor_unique) simp_all

lemma percent_of_none: "percent_of 0 n = 0"
  using Math_round_of_int[of 0]
  by (simp add: percent_of_def js_div_def js_mul_def to_double_def)

lemma percent_of_all: "0 < n \<Longrightarrow> percent_of n n = 100"
proof -
  assume "0 < n"
  then have "js_div (of_nat n) (of_nat n) = 1"
    using to_double_of_int[of 1] by (simp add: js_div_def)
  moreover have "js_mul 1 100 = 100"
    using to_double_of_int[of 100] by (simp add: js_mul_def)
  ultimately show ?thesis using Math_round_of_int[of 100] by (simp add: percent_of_def)
qed

lemma percent_of_range:
  assumes "part \<le> whole" and "0 < whole"
  shows "0 \<le> percent_of part whole \<and> percent_of part whole \<le> 100"
proof -
  have "(0::rat) \<le> of_nat part" "(of_nat part :: rat) \<le> of_nat whole" "(0::rat) < of_nat whole"
    using assms by simp_all
  from percentage_close[OF this] show ?thesis by (simp add: percent_of_def)
qed

lemma count_status_filter:
  "length (filter (\<lambda>r. att_student r = i \<and> att_status r = s) db)
     = count_status s (filter (\<lambda>r. att_student r = i) db)"
  by (simp add: count_status_def conj_commute)

lemma count_status_total:
  "count_status Present rs + count_status Late rs + count_status Excused rs
     + count_status Absent rs = length rs"
proof (induction rs)
  case Nil
  then show ?case by (simp add: count_status_def)
next
  case (Cons r rs)
  then show ?case by (cases "att_status r") (simp_all add: count_status_def)
qed

lemma calculateStudentAttendance_eq:
  "calculateStudentAttendance db i =
     (let rs = filter (\<lambda>r. att_student r = i) db
      in if length rs = 0 then 0 else percent_of (count_status Present rs) (length rs))"
  by (simp add: calculateStudentAttendance_def Let_def count_status_filter)

text \<open>The documents the summary is computed from: those of the student, in the range.\<close>

lemma summary_find:
  "attendance_find db (summary_filter i s e subject) =
     filter (\<lambda>r. att_student r = i \<and>
                  (s \<noteq> None \<and> e \<noteq> None \<longrightarrow> the s \<le> att_date r \<and> att_date r \<le> the e) \<and>
                  (truthy subject \<longrightarrow> att_subject r = subject)) db"
  unfolding attendance_find_def
  by (cases s; cases e; cases subject)
     (auto simp: summary_filter_def Let_def empty_filter_def attendance_matches_def
        intro!: filter_cong)

lemma controller_summary_eq:
  "controller_summary rs =
     \<lparr>sum_totalDays = length rs, sum_presentDays = count_status Present rs,
      sum_absentDays = count_status Absent rs, sum_lateDays = count_status Late rs,
      sum_excusedDays = count_status Excused rs,
      sum_attendancePercentage =
        (if 0 < length rs
         then Math_round (js_mul (js_div
                (of_nat (count_status Present rs + count_status Late rs + count_status Excused rs))
                (of_nat (length rs))) 100)
         else 0)\<rparr>"
  by (simp add: controller_summary_def Let_def percent_of_def)

text \<open>
  Claim C4, as amended. Let \<open>rs\<close> be the attendance documents of the student \<open>i\<close> whose
  date lies in the range from \<open>s\<close> to \<open>e\<close>, both ends included (all dates, when the
  range is not given with both ends), and of the subject, when one is asked for. A user
  who is not a Student or a Parent, the student in person, and a parent of the student
  get the summary of \<open>rs\<close>, and everybody else gets 403. The summary counts the documents
  of \<open>rs\<close> by status and reports
  \<^verbatim>\<open>Math.round(((present + late + excused) / total) * 100)\<close> when \<open>rs\<close> is not empty,
  and 0 otherwise: Late and Excused days count in the numerator, which is all days but
  the Absent ones. \<^verbatim>\<open>calculateStudentAttendance\<close>, over the documents \<open>xs\<close> of the
  student at all dates, reports \<^verbatim>\<open>Math.round((present / total) * 100)\<close> with Present
  days only. Both figures lie between 0 and 100.
\<close>

theorem attendance_percentage:
  assumes "rs = filter (\<lambda>r. att_student r = i \<and>
                  (s \<noteq> None \<and> e \<noteq> None \<longrightarrow> the s \<le> att_date r \<and> att_date r \<le> the e) \<and>
                  (truthy subject \<longrightarrow> att_subject r = subject)) db"
    and "xs = filter (\<lambda>r. att_student r = i) db"
    and "allowed \<longleftrightarrow>
      (usr_role u = ''Student'' \<longrightarrow>
         (\<exists>st. find (\<lambda>st. st_user st = usr_id u) students = Some st \<and> st_id st = i)) \<and>
      (usr_role u = ''Parent'' \<longrightarrow>
         (\<exists>st \<in> set students. st_id st = i \<and> st_parent st = Some (usr_id u)))"
    and "pct = (if 0 < length rs
        then Math_round (js_mul (js_div
               (of_nat (count_status Present rs + count_status Late rs + count_status Excused rs))
               (of_nat (length rs))) 100)
        else 0)"
  shows "getStudentAttendanceSummary students db u i s e subject =
       (if allowed
        then (200, Some \<lparr>sum_totalDays = length rs, sum_presentDays = count_status Present rs,
                sum_absentDays = count_status Absent rs, sum_lateDays = count_status Late rs,
                sum_excusedDays = count_status Excused rs, sum_attendancePercentage = pct\<rparr>)
        else (403, None)) \<and>
     count_status Present rs + count_status Late rs + count_status Excused rs
       = length rs - count_status Absent rs \<and>
     0 \<le> pct \<and> pct \<le> 100 \<and>
     calculateStudentAttendance db i =
       (if 0 < length xs
        then Math_round (js_mul (js_div (of_nat (count_status Present xs)) (of_nat (length xs))) 100)
        else 0) \<and>
     0 \<le> calculateStudentAttendance db i \<and> calculateStudentAttendance db i \<le> 100"
proof -
  have f: "attendance_find db (summary_filter i s e subject) = rs"
    unfolding assms(1) by (rule summary_find)
  have par: "(find (\<lambda>st. st_id st = i \<and> st_parent st = Some (usr_id u)) students = None)
      \<longleftrightarrow> \<not> (\<exists>st \<in> set students. st_id st = i \<and> st_parent st = Some (usr_id u))"
    by (auto simp: find_None_iff)
  have g: "getStudentAttendanceSummary students db u i s e subject =
       (if allowed then (200, Some (controller_summary rs)) else (403, None))"
    unfolding getStudentAttendanceSummary_def f par assms(3)
    by (auto split: option.splits)
  have c: "count_status Present rs + count_status Late rs + count_status Excused rs
       = length rs - count_status Absent rs"
    using count_status_total[of rs] by simp
  have r1: "0 \<le> pct \<and> pct \<le> 100"
  proof (cases "0 < length rs")
    case True
    have "count_status Present rs + count_status Late rs + count_status Excused rs \<le> length rs"
      using c by simp
    from percent_of_range[OF this True] True show ?thesis
      by (simp add: assms(4) percent_of_def)
  next
    case False
    then show ?thesis by (simp add: assms(4))
  qed
  have r2: "0 \<le> calculateStudentAttendance db i \<and> calculateStudentAttendance db i \<le> 100"
  proof (cases "0 < length xs")
    case True
    have "count_status Present xs \<le> length xs" by (simp add: count_status_def)
    from percent_of_range[OF this True] True show ?thesis
      using calculateStudentAttendance_eq[of db i] assms(2) by (simp add: Let_def)
  next
    case False
    then show ?thesis using calculateStudentAttendance_eq[of db i] assms(2) by (simp add: Let_def)
  qed
  have e1: "getStudentAttendanceSummary students db u i s e subject =
       (if allowed
        then (200, Some \<lparr>sum_totalDays = length rs, sum_presentDays = count_status Present rs,
                sum_absentDays = count_status Absent rs, sum_lateDays = count_status Late rs,
                sum_excusedDays = count_status Excused rs, sum_attendancePercentage = pct\<rparr>)
        else (403, None))"
    unfolding g controller_summary_eq assms(4) by simp
  have e2: "calculateStudentAttendance db i =
       (if 0 < length xs
        then Math_round (js_mul (js_div (of_nat (count_status Present xs)) (of_nat (length xs))) 100)
        else 0)"
    using calculateStudentAttendance_eq[of db i] assms(2) by (simp add: Let_def percent_of_def)
  from e1 c r1 e2 r2 show ?thesis by (intro conjI) simp_all
qed

text \<open>
  The student \<open>s1\<close> asks for the own summary of January 2024 (from 1704067200000 to
  1706659200000). The collection holds five documents of \<open>s1\<close>, a Present, a Late and an
  Absent day in January, a Present day in December and an Excused day in February, and a
  Present day of another student in January. The summary counts the three January days of
  \<open>s1\<close> and reports 67, two days out of three; the dashboard figure counts the two
  Present days among all five and is 40. The same request sent by the student \<open>s2\<close> is
  answered with 403.
\<close>

theorem attendance_percentage_witness:
  "getStudentAttendanceSummary
      [\<lparr>st_id = ''s1'', st_user = ''u1'', st_parent = None, st_class = None\<rparr>,
       \<lparr>st_id = ''s2'', st_user = ''u2'', st_parent = None, st_class = None\<rparr>]
      [\<lparr>att_id = ''a1'', att_student = ''s1'', att_class = ''c1'', att_section = None,
        att_subject = None, att_date = 1705276800000, att_status = Present,
        att_createdAt = 1705276800000\<rparr>,
       \<lparr>att_id = ''a2'', att_student = ''s1'', att_class = ''c1'', att_section = None,
        att_subject = None, att_date = 1705363200000, att_status = Late,
        att_createdAt = 1705363200000\<rparr>,
       \<lparr>att_id = ''a3'', att_student = ''s1'', att_class = ''c1'', att_section = None,
        att_subject = None, att_date = 1705449600000, att_status = Absent,
        att_createdAt = 1705449600000\<rparr>,
       \<lparr>att_id = ''a4'', att_student = ''s1'', att_class = ''c1'', att_section = None,
        att_subject = None, att_date = 1702598400000, att_status = Present,
        att_createdAt = 1702598400000\<rparr>,
       \<lparr>att_id = ''a5'', att_student = ''s1'', att_class = ''c1'', att_section = None,
        att_subject = None, att_date = 1707955200000, att_status = Excused,
        att_createdAt = 1707955200000\<rparr>,
       \<lparr>att_id = ''a6'', att_student = ''s2'', att_class = ''c1'', att_section = None,
        att_subject = None, att_date = 1705276800000, att_status = Present,
        att_createdAt = 1705276800000\<rparr>]
      \<lparr>usr_id = ''u1'', usr_role = ''Student''\<rparr> ''s1''
      (Some 1704067200000) (Some 1706659200000) None
    = (200, Some \<lparr>sum_totalDays = 3, sum_presentDays = 1, sum_absentDays = 1, sum_lateDays = 1,
         sum_excusedDays = 0, sum_attendancePercentage = 67\<rparr>) \<and>
   getStudentAttendanceSummary
      [\<lparr>st_id = ''s1'', st_user = ''u1'', st_parent = None, st_class = None\<rparr>,
       \<lparr>st_id = ''s2'', st_user = ''u2'', st_parent = None, st_class = None\<rparr>]
      [\<lparr>att_id = ''a1'', att_student = ''s1'', att_class = ''c1'', att_section = None,
        att_subject = None, att_date = 1705276800000, att_status = Present,
        att_createdAt = 1705276800000\<rparr>,
       \<lparr>att_id = ''a2'', att_student = ''s1'', att_class = ''c1'', att_section = None,
        att_subject = None, att_date = 1705363200000, att_status = Late,
        att_createdAt = 1705363200000\<rparr>,
       \<lparr>att_id = ''a3'', att_student = ''s1'', att_class = ''c1'', att_section = None,
        att_subject = None, att_date = 1705449600000, att_status = Absent,
        att_createdAt = 1705449600000\<rparr>,
       \<lparr>att_id = ''a4'', att_student = ''s1'', att_class = ''c1'', att_section = None,
        att_subject = None, att_date = 1702598400000, att_status = Present,
        att_createdAt = 1702598400000\<rparr>,
       \<lparr>att_id = ''a5'', att_student = ''s1'', att_class = ''c1'', att_section = None,
        att_subject = None, att_date = 1707955200000, att_status = Excused,
        att_createdAt = 1707955200000\<rparr>,
       \<lparr>att_id = ''a6'', att_student = ''s2'', att_class = ''c1'', att_section = None,
        att_subject = None, att_date = 1705276800000, att_status = Present,
        att_createdAt = 1705276800000\<rparr>]
      \<lparr>usr_id = ''u2'', usr_role = ''Student''\<rparr> ''s1''
      (Some 1704067200000) (Some 1706659200000) None
    = (403, None) \<and>
   calculateStudentAttendance
      [\<lparr>att_id = ''a1'', att_student = ''s1'', att_class = ''c1'', att_section = None,
        att_subject = None, att_date = 1705276800000, att_status = Present,
        att_createdAt = 1705276800000\<rparr>,
       \<lparr>att_id = ''a2'', att_student = ''s1'', att_class = ''c1'', att_section = None,
        att_subject = None, att_date = 1705363200000, att_status = Late,
        att_createdAt = 1705363200000\<rparr>,
       \<lparr>att_id = ''a3'', att_student = ''s1'', att_class = ''c1'', att_section = None,
        att_subject = None, att_date = 1705449600000, att_status = Absent,
        att_createdAt = 1705449600000\<rparr>,
       \<lparr>att_id = ''a4'', att_student = ''s1'', att_class = ''c1'', att_section = None,
        att_subject = None, att_date = 1702598400000, att_status = Present,
        att_createdAt = 1702598400000\<rparr>,
       \<lparr>att_id = ''a5'', att_student = ''s1'', att_class = ''c1'', att_section = None,
        att_subject = None, att_date = 1707955200000, att_status = Excused,
        att_createdAt = 1707955200000\<rparr>,
       \<lparr>att_id = ''a6'', att_student = ''s2'', att_class = ''c1'', att_section = None,
        att_subject = None, att_date = 1705276800000, att_status = Present,
        att_createdAt = 1705276800000\<rparr>] ''s1'' = 40"
proof -
  let ?a1 = "\<lparr>att_id = ''a1'', att_student = ''s1'', att_class = ''c1'', att_section = None,
        att_subject = None, att_date = 1705276800000, att_status = Present,
        att_createdAt = 1705276800000\<rparr>"
  let ?a2 = "\<lparr>att_id = ''a2'', att_student = ''s1'', att_class = ''c1'', att_section = None,
        att_subject = None, att_date = 1705363200000, att_status = Late,
        att_createdAt = 1705363200000\<rparr>"
  let ?a3 = "\<lparr>att_id = ''a3'', att_student = ''s1'', att_class = ''c1'', att_section = None,
        att_subject = None, att_date = 1705449600000, att_status = Absent,
        att_createdAt = 1705449600000\<rparr>"
  let ?a4 = "\<lparr>att_id = ''a4'', att_student = ''s1'', att_class = ''c1'', att_section = None,
        att_subject = None, att_date = 1702598400000, att_status = Present,
        att_createdAt = 1702598400000\<rparr>"
  let ?a5 = "\<lparr>att_id = ''a5'', att_student = ''s1'', att_class = ''c1'', att_section = None,
        att_subject = None, att_date = 1707955200000, att_status = Excused,
        att_createdAt = 1707955200000\<rparr>"
  let ?a6 = "\<lparr>att_id = ''a6'', att_student = ''s2'', att_class = ''c1'', att_section = None,
        att_subject = None, att_date = 1705276800000, att_status = Present,
        att_createdAt = 1705276800000\<rparr>"
  let ?db = "[?a1, ?a2, ?a3, ?a4, ?a5, ?a6]"
  let ?students = "[\<lparr>st_id = ''s1'', st_user = ''u1'', st_parent = None, st_class = None\<rparr>,
       \<lparr>st_id = ''s2'', st_user = ''u2'', st_parent = None, st_class = None\<rparr>]"
  have p: "Math_round (js_mul (js_div 2 3) 100) = 67" "Math_round (js_mul (js_div 2 5) 100) = 40"
    by code_simp+
  note t = attendance_percentage[where db = ?db and i = "''s1''" and s = "Some 1704067200000"
      and e = "Some 1706659200000" and subject = None and students = ?students
      and rs = "[?a1, ?a2, ?a3]" and xs = "[?a1, ?a2, ?a3, ?a4, ?a5]"]
  have 1: "getStudentAttendanceSummary ?students ?db \<lparr>usr_id = ''u1'', usr_role = ''Student''\<rparr>
      ''s1'' (Some 1704067200000) (Some 1706659200000) None
    = (200, Some \<lparr>sum_totalDays = 3, sum_presentDays = 1, sum_absentDays = 1, sum_lateDays = 1,
         sum_excusedDays = 0, sum_attendancePercentage = 67\<rparr>)"
    using t[where u = "\<lparr>usr_id = ''u1'', usr_role = ''Student''\<rparr>" and allowed = True
        and pct = 67, THEN conjunct1]
    by (simp add: count_status_def p)
  have 2: "getStudentAttendanceSummary ?students ?db \<lparr>usr_id = ''u2'', usr_role = ''Student''\<rparr>
      ''s1'' (Some 1704067200000) (Some 1706659200000) None = (403, None)"
    using t[where u = "\<lparr>usr_id = ''u2'', usr_role = ''Student''\<rparr>" and allowed = False
        and pct = 67, THEN conjunct1]
    by (simp add: count_status_def p)
  have 3: "calculateStudentAttendance ?db ''s1'' = 40"
    using t[where u = "\<lparr>usr_id = ''u1'', usr_role = ''Student''\<rparr>" and allowed = True
        and pct = 67, THEN conjunct2, THEN conjunct2, THEN conjunct2, THEN conjunct2,
        THEN conjunct1]
    by (simp add: count_status_def p)
  from 1 2 3 show ?thesis by (intro conjI)
qed

text \<open>
  Claim C4 as stated fails on the summary endpoint: for a single Late day in the range it
  reports 100, where the share of Present days is 0.
\<close>

theorem attendance_percentage_counterexample:
  "map_option sum_attendancePercentage (snd (getStudentAttendanceSummary []
      [\<lparr>att_id = ''a1'', att_student = ''s1'', att_class = ''c1'', att_section = None,
        att_subject = None, att_date = 1705276800000, att_status = Late,
        att_createdAt = 1705276800000\<rparr>]
      \<lparr>usr_id = ''u0'', usr_role = ''Admin''\<rparr> ''s1'' (Some 1704067200000) (Some 1706659200000) None))
    = Some 100 \<and>
   Math_round (js_mul (js_div (of_nat (count_status Present
      [\<lparr>att_id = ''a1'', att_student = ''s1'', att_class = ''c1'', att_section = None,
        att_subject = None, att_date = 1705276800000, att_status = Late,
        att_createdAt = 1705276800000\<rparr>])) (of_nat 1)) 100) = 0"
proof -
  let ?a = "\<lparr>att_id = ''a1'', att_student = ''s1'', att_class = ''c1'', att_section = None,
        att_subject = None, att_date = 1705276800000, att_status = Late,
        att_createdAt = 1705276800000\<rparr>"
  have f: "attendance_find [?a] (summary_filter ''s1'' (Some 1704067200000) (Some 1706659200000) None) = [?a]"
    by (simp add: attendance_find_def summary_filter_def empty_filter_def attendance_matches_def)
  have p: "percent_of (Suc 0) (Suc 0) = 100" using percent_of_all[of 1] by simp
  have z: "Math_round (js_mul (js_div 0 (of_nat 1)) 100) = 0"
    using percent_of_none[of 1] by (simp add: percent_of_def)
  show ?thesis
    using z
    by (simp add: getStudentAttendanceSummary_def f controller_summary_def count_status_def p)
qed

section \<open>Properties of the attendance list\<close>

lemma apply_filters_student:
  "\<not> truthy (ap_student p) \<Longrightarrow> f_student (apply_filters p q) = f_student q"
  by (simp add: apply_filters_def Let_def split: option.splits)

lemma apply_filters_student_param:
  "truthy (ap_student p) \<Longrightarrow> f_student (apply_filters p q) = Some (IdEq (the (ap_student p)))"
  by (simp add: apply_filters_def Let_def split: option.splits)

lemma role_filter_student:
  "usr_role u = ''Student'' \<Longrightarrow> find (\<lambda>s. st_user s = usr_id u) students = Some s \<Longrightarrow>
   f_student (role_filter students teachers u) = Some (IdEq (st_id s))"
  by (simp add: role_filter_def empty_filter_def)

text \<open>
  A student with a profile who sends no \<^verbatim>\<open>student\<close> parameter receives own records
  only; a \<^verbatim>\<open>student\<close> parameter decides whose records are returned, whoever asks.
\<close>

lemma getAttendance_student_scope:
  assumes "usr_role u = ''Student''"
    and "find (\<lambda>s. st_user s = usr_id u) students = Some s"
    and "\<not> truthy (ap_student p)"
    and "getAttendance students teachers db u p = (200, Some (rs, pg))"
  shows "\<forall>r \<in> set rs. att_student r = st_id s"
proof -
  let ?q = "attendance_query students teachers u p"
  have q: "f_student ?q = Some (IdEq (st_id s))"
    using assms(1-3) by (simp add: attendance_query_def apply_filters_student role_filter_student)
  have "set rs \<subseteq> set (attendance_find db ?q)"
    using assms(4) cursor_page_subset
    by (fastforce simp: getAttendance_def Let_def attendance_sort_def split: option.splits)
  then show ?thesis
    using q by (auto simp: attendance_find_def attendance_matches_def)
qed

lemma getAttendance_student_param:
  assumes "truthy (ap_student p)"
    and "getAttendance students teachers db u p = (200, Some (rs, pg))"
  shows "\<forall>r \<in> set rs. att_student r = the (ap_student p)"
proof -
  let ?q = "attendance_query students teachers u p"
  have q: "f_student ?q = Some (IdEq (the (ap_student p)))"
    using assms(1) by (simp add: attendance_query_def apply_filters_student_param)
  have "set rs \<subseteq> set (attendance_find db ?q)"
    using assms(2) cursor_page_subset
    by (fastforce simp: getAttendance_def Let_def attendance_sort_def split: option.splits)
  then show ?thesis
    using q by (auto simp: attendance_find_def attendance_matches_def)
qed

text \<open>
  Claim C1 does not hold of the handler. The student of user \<open>u1\<close>, whose profile is
  \<open>s1\<close>, asks for \<^verbatim>\<open>GET /api/attendance?student=s2\<close> and receives the attendance
  record of \<open>s2\<close>: the assignment \<^verbatim>\<open>query.student = studentId\<close> replaces the role
  scope instead of narrowing it.
\<close>

theorem getAttendance_student_param_overrides_scope:
  "map_option fst (snd (getAttendance
      [\<lparr>st_id = ''s1'', st_user = ''u1'', st_parent = None, st_class = Some ''c1''\<rparr>,
       \<lparr>st_id = ''s2'', st_user = ''u2'', st_parent = None, st_class = Some ''c1''\<rparr>]
      []
      [\<lparr>att_id = ''a1'', att_student = ''s1'', att_class = ''c1'', att_section = None,
        att_subject = None, att_date = 1705276800000, att_status = Present,
        att_createdAt = 1705276800000\<rparr>,
       \<lparr>att_id = ''a2'', att_student = ''s2'', att_class = ''c1'', att_section = None,
        att_subject = None, att_date = 1705276800000, att_status = Absent,
        att_createdAt = 1705276800000\<rparr>]
      \<lparr>usr_id = ''u1'', usr_role = ''Student''\<rparr>
      \<lparr>ap_page = None, ap_limit = None, ap_class = None, ap_section = None,
       ap_student = Some ''s2'', ap_subject = None, ap_date = None, ap_startDate = None,
       ap_endDate = None, ap_status = None\<rparr>))
   = Some [\<lparr>att_id = ''a2'', att_student = ''s2'', att_class = ''c1'', att_section = None,
        att_subject = None, att_date = 1705276800000, att_status = Absent,
        att_createdAt = 1705276800000\<rparr>]"
  by code_simp

text \<open>
  A user of role Student for whom no student profile exists gets no scope at all: the
  handler returns the records of every student.
\<close>

lemma getAttendance_student_without_profile:
  "map_option (map att_student \<circ> fst) (snd (getAttendance [] []
      [\<lparr>att_id = ''a1'', att_student = ''s1'', att_class = ''c1'', att_section = None,
        att_subject = None, att_date = 1705276800000, att_status = Present,
        att_createdAt = 1705276800000\<rparr>,
       \<lparr>att_id = ''a2'', att_student = ''s2'', att_class = ''c1'', att_section = None,
        att_subject = None, att_date = 1705190400000, att_status = Absent,
        att_createdAt = 1705190400000\<rparr>]
      \<lparr>usr_id = ''u9'', usr_role = ''Student''\<rparr>
      \<lparr>ap_page = None, ap_limit = None, ap_class = None, ap_section = None,
       ap_student = None, ap_subject = None, ap_date = None, ap_startDate = None,
       ap_endDate = None, ap_status = None\<rparr>))
   = Some [''s1'', ''s2'']"
  by code_simp

section \<open>Properties of the notice list\<close>




lemma notice_sort_set [simp]: "set (notice_sort ns) = set ns"
  by (simp add: notice_sort_def)

lemma notice_sort_length [simp]: "length (notice_sort ns) = length ns"
  by (simp add: notice_sort_def)








text \<open>
  The audiences of the schema name groups in the plural, \<^verbatim>\<open>Students\<close>, while the role
  of a user is in the singular, \<^verbatim>\<open>Student\<close>, and the handler compares the two strings
  as they are. So a notice addressed to \<^verbatim>\<open>Students\<close> is one that a student may see by
  the rule of the specification, and the handler does not list it for the student.
\<close>

lemma getNotices_audience_of_students:
  "map_option fst (snd (getNotices [\<lparr>st_id = ''s1'', st_user = ''u1'', st_parent = None, st_class = Some ''c1''\<rparr>]
      [\<lparr>nt_id = ''n7'', nt_category = ''General'', nt_priority = ''Normal'',
        nt_targetAudience = [''Students''], nt_targetClasses = [], nt_publishDate = 1704067200000,
        nt_expiryDate = None, nt_isPublished = True, nt_isPinned = False, nt_isActive = True\<rparr>]
      1705276800000 \<lparr>usr_id = ''u1'', usr_role = ''Student''\<rparr>
      \<lparr>np_page = None, np_limit = None, np_category = None, np_priority = None,
       np_targetAudience = None, np_includeExpired = None, np_pinnedOnly = None\<rparr>))
    = Some [] \<and>
   spec_visible 1705276800000 ''Student'' (Some ''c1'') False
      \<lparr>nt_id = ''n7'', nt_category = ''General'', nt_priority = ''Normal'',
        nt_targetAudience = [''Students''], nt_targetClasses = [], nt_publishDate = 1704067200000,
        nt_expiryDate = None, nt_isPublished = True, nt_isPinned = False, nt_isActive = True\<rparr>"
  by code_simp

section \<open>The envelopes of the modelled list handlers\<close>

text \<open>
  The envelopes of the two list handlers modelled in full are those of
  \<open>list_pagination\<close>. A request whose skip the database refuses, as that for page 0
  with a positive limit, is answered 500 and has no envelope.
\<close>

lemma getAttendance_pagination:
  assumes "getAttendance students teachers db u p = (200, Some (rs, pg))"
  shows "pg = list_pagination GetAttendance (ap_page p) (ap_limit p)
           (length (attendance_find db (attendance_query students teachers u p)))"
  using assms
  by (auto simp: getAttendance_def list_pagination_def default_limit_def Let_def
      split: option.splits)

lemma getAttendance_status:
  "fst (getAttendance students teachers db u p) =
     (if db_int (jn_mul (jn_sub (param_number 1 (ap_page p)) (Fin 1))
                  (param_number 10 (ap_limit p))) < 0
      then 500 else 200)"
  by (auto simp: getAttendance_def cursor_page_def Let_def split: option.splits)

lemma getNotices_pagination:
  assumes "getNotices students db now u p = (200, Some (ns, pg))"
  shows "\<exists>n. pg = list_pagination GetNotices (np_page p) (np_limit p) n"
  using assms
  by (auto simp: getNotices_def list_pagination_def default_limit_def Let_def
      split: option.splits if_splits)

text \<open>
  The attendance list for a student with 12 documents: the second page of five, and the
  answer to page 0.
\<close>

lemma getAttendance_pages:
  "map_option (map att_id \<circ> fst) (snd (getAttendance [] []
      (map (\<lambda>k. \<lparr>att_id = [char_of (k + 97)], att_student = ''s1'', att_class = ''c1'',
                  att_section = None, att_subject = None, att_date = int k, att_status = Present,
                  att_createdAt = int k\<rparr>) [0..<12])
      \<lparr>usr_id = ''u0'', usr_role = ''Admin''\<rparr>
      \<lparr>ap_page = Some ''2'', ap_limit = Some ''5'', ap_class = None, ap_section = None,
       ap_student = None, ap_subject = None, ap_date = None, ap_startDate = None,
       ap_endDate = None, ap_status = None\<rparr>))
   = Some [''g'', ''f'', ''e'', ''d'', ''c''] \<and>
   getAttendance [] [] []
      \<lparr>usr_id = ''u0'', usr_role = ''Admin''\<rparr>
      \<lparr>ap_page = Some ''0'', ap_limit = None, ap_class = None, ap_section = None,
       ap_student = None, ap_subject = None, ap_date = None, ap_startDate = None,
       ap_endDate = None, ap_status = None\<rparr> = (500, None)"
  by code_simp

section \<open>Properties of message threads\<close>

lemma message_validate_Inr: "message_validate m = Inr m' \<Longrightarrow> m' = m"
  by (auto simp: message_validate_def split: if_splits)

lemma message_cast_fields [simp]:
  "msg_id (message_cast m) = msg_id m"
  "msg_parentMessage (message_cast m) = msg_parentMessage m"
  "msg_threadId (message_cast m) = msg_threadId m"
  by (simp_all add: message_cast_def)

lemma message_create_Inr:
  assumes "message_create db doc = Inr (m, db')"
  shows "message_pre_save db (message_cast doc) = Inr m \<and> db' = db @ [m]"
  using assms message_validate_Inr[of "message_cast doc"]
  by (auto simp: message_create_def split: sum.splits)

lemma message_pre_save_fields:
  assumes "message_pre_save db m = Inr m'"
  shows "msg_id m' = msg_id m \<and> msg_parentMessage m' = msg_parentMessage m"
  using assms
  by (auto simp: message_pre_save_def split: if_splits option.splits)

lemma truthy_the: "truthy x \<Longrightarrow> Some (the x) = x"
  by (cases x) simp_all

lemma message_pre_save_thread:
  assumes "message_pre_save db m = Inr m'"
  shows "msg_threadId m' =
     (if truthy (msg_threadId m) then msg_threadId m
      else case msg_parentMessage m of
             None \<Rightarrow> Some (msg_id m)
           | Some pid \<Rightarrow>
               (case message_findById db pid of
                  None \<Rightarrow> None
                | Some parent \<Rightarrow>
                    if truthy (msg_threadId parent) then msg_threadId parent
                    else Some (msg_id parent)))"
  using assms
  by (cases "msg_threadId m")
     (auto simp: message_pre_save_def truthy_the split: if_splits option.splits)

lemma message_pre_save_parent_exists:
  assumes "message_pre_save db m = Inr m'" and "\<not> truthy (msg_threadId m)"
    and "msg_parentMessage m = Some pid"
  shows "message_findById db pid \<noteq> None"
  using assms by (auto simp: message_pre_save_def split: if_splits option.splits)

lemma message_findById_id: "message_findById db i = Some m \<Longrightarrow> msg_id m = i"
  by (auto simp: message_findById_def find_Some_iff)

lemma replyMessage_created:
  assumes "replyMessage db userId userSession i body newId = ((201, Some reply), db')"
  shows "\<exists>original. message_findById db i = Some original \<and>
     message_create db
       \<lparr>msg_id = newId, msg_sender = userId,
        msg_recipient = (if userId = msg_sender original
                         then msg_recipient original else msg_sender original),
        msg_subject = ''Re: '' @ msg_subject original,
        msg_message = the (rb_message body),
        msg_priority = (if truthy (rb_priority body) then the (rb_priority body) else ''Normal''),
        msg_parentMessage = Some (msg_id original),
        msg_threadId = msg_threadId original,
        msg_session = userSession\<rparr> = Inr (reply, db')"
  using assms
  by (auto simp: replyMessage_def Let_def split: if_splits option.splits sum.splits)

lemma length_trim_le: "length (trim s) \<le> length s"
proof -
  have "length (trim s) \<le> length (dropWhile is_space s)"
    unfolding trim_def length_rev
    using length_dropWhile_le[of is_space "rev (dropWhile is_space s)"] by simp
  also have "\<dots> \<le> length s" by (rule length_dropWhile_le)
  finally show ?thesis .
qed

lemma trim_reply_subject: "trim (''Re: '' @ s) \<noteq> []"
proof -
  have r: "\<not> is_space CHR ''R''" by (simp add: is_space_def)
  then have "dropWhile is_space (''Re: '' @ s) = ''Re: '' @ s" by simp
  moreover have "CHR ''R'' \<in> set (rev (''Re: '' @ s))" by simp
  then have "dropWhile is_space (rev (''Re: '' @ s)) \<noteq> []"
    using r unfolding dropWhile_eq_Nil_conv by blast
  ultimately show ?thesis by (simp add: trim_def)
qed

lemma message_create_valid:
  assumes "message_validate (message_cast doc) = Inr (message_cast doc)"
  shows "message_create db doc =
     (case message_pre_save db (message_cast doc) of
        Inl e \<Rightarrow> Inl e
      | Inr m \<Rightarrow> Inr (m, db @ [m]))"
  using assms by (simp add: message_create_def)

lemma message_pre_save_no_thread:
  assumes "\<not> truthy (msg_threadId m)"
  shows "message_pre_save db m =
     (case msg_parentMessage m of
        None \<Rightarrow> Inr (m\<lparr>msg_threadId := Some (msg_id m)\<rparr>)
      | Some pid \<Rightarrow>
          (case message_findById db pid of
             None \<Rightarrow> Inl (HookError ''TypeError'')
           | Some parent \<Rightarrow>
               Inr (m\<lparr>msg_threadId :=
                     (if truthy (msg_threadId parent) then msg_threadId parent
                      else Some (msg_id parent))\<rparr>)))"
  using assms
  by (auto simp: message_pre_save_def truthy_the split: option.splits)

lemma message_pre_save_thread_given:
  assumes "truthy (msg_threadId m)"
  shows "message_pre_save db m = Inr m"
  using assms by (simp add: message_pre_save_def)

text \<open>The document that \<^verbatim>\<open>replyMessage\<close> stores: the reply after the schema's setters and hook.\<close>

lemma replyMessage_success:
  assumes b: "reply_body_valid body"
    and f: "message_findById db i = Some original"
    and u: "userId = msg_sender original \<or> userId = msg_recipient original"
    and l: "length (trim (''Re: '' @ msg_subject original)) \<le> 200"
    and t: "trim (the (rb_message body)) \<noteq> []"
    and y: "userSession \<noteq> None"
    and r: "reply =
       \<lparr>msg_id = newId, msg_sender = userId,
        msg_recipient = (if userId = msg_sender original
                         then msg_recipient original else msg_sender original),
        msg_subject = trim (''Re: '' @ msg_subject original),
        msg_message = trim (the (rb_message body)),
        msg_priority = (if truthy (rb_priority body) then the (rb_priority body) else ''Normal''),
        msg_parentMessage = Some i,
        msg_threadId = (if truthy (msg_threadId original) then msg_threadId original else Some i),
        msg_session = userSession\<rparr>"
  shows "replyMessage db userId userSession i body newId = ((201, Some reply), db @ [reply])"
proof -
  define doc where "doc =
       \<lparr>msg_id = newId, msg_sender = userId,
        msg_recipient = (if userId = msg_sender original
                         then msg_recipient original else msg_sender original),
        msg_subject = ''Re: '' @ msg_subject original,
        msg_message = the (rb_message body),
        msg_priority = (if truthy (rb_priority body) then the (rb_priority body) else ''Normal''),
        msg_parentMessage = Some (msg_id original),
        msg_threadId = msg_threadId original,
        msg_session = userSession\<rparr>"
  have oid: "msg_id original = i" using f by (rule message_findById_id)
  have len: "length (trim (the (rb_message body))) \<le> 2000"
    using b length_trim_le[of "the (rb_message body)"] by (simp add: reply_body_valid_def)
  have pr: "(if truthy (rb_priority body) then the (rb_priority body) else ''Normal'')
      \<in> set priority_enum"
    using b by (cases "rb_priority body") (auto simp: reply_body_valid_def priority_enum_def)
  have v: "message_validate (message_cast doc) = Inr (message_cast doc)"
    using l t y len pr trim_reply_subject[of "msg_subject original"]
    by (simp add: message_validate_def message_cast_def doc_def)
  have ps: "message_pre_save db (message_cast doc) = Inr reply"
  proof (cases "truthy (msg_threadId original)")
    case True
    then show ?thesis
      using message_pre_save_thread_given[of "message_cast doc" db]
      by (simp add: doc_def message_cast_def r oid)
  next
    case False
    then show ?thesis
      using message_pre_save_no_thread[of "message_cast doc" db] f
      by (simp add: doc_def message_cast_def r oid)
  qed
  have c: "message_create db doc = Inr (reply, db @ [reply])"
    by (simp add: message_create_valid[OF v] ps)
  have "replyMessage db userId userSession i body newId =
      (case message_create db doc of
         Inl e \<Rightarrow> ((500, None), db)
       | Inr (reply, db') \<Rightarrow> ((201, Some reply), db'))"
    using b f u by (auto simp: replyMessage_def doc_def Let_def)
  then show ?thesis by (simp add: c)
qed

text \<open>
  Claim C7. A message created without a thread id keeps its id and parent; without a
  parent its thread id becomes its own id; with a parent, the parent is in the collection
  and the thread id becomes the parent's thread id, or the parent's id when the parent has
  none. Such a message is created whenever it passes the validators of the schema and its
  parent, if it names one, is in the collection; when the parent is not there, the save
  fails. A reply created through \<^verbatim>\<open>replyMessage\<close> has the original message as its parent
  and carries the original's thread id (the original's id when it has none), and is added
  to the collection; and the reply is created whenever the body is valid, the original
  exists, the user is its sender or its recipient and has a session, the subject with
  \<^verbatim>\<open>Re: \<close> in front fits in 200 characters, and the message is not blank.
\<close>

theorem message_thread_id:
  "(message_create db doc = Inr (m, db1) \<and> \<not> truthy (msg_threadId doc) \<longrightarrow>
      msg_id m = msg_id doc \<and> msg_parentMessage m = msg_parentMessage doc \<and>
      (case msg_parentMessage doc of
         None \<Rightarrow> msg_threadId m = Some (msg_id doc)
       | Some pid \<Rightarrow>
           (case message_findById db pid of
              None \<Rightarrow> False
            | Some parent \<Rightarrow>
                msg_threadId m =
                  (if truthy (msg_threadId parent) then msg_threadId parent
                   else Some (msg_id parent))))) \<and>
   (message_validate (message_cast doc) = Inr (message_cast doc) \<and>
    \<not> truthy (msg_threadId doc) \<longrightarrow>
      message_create db doc =
        (case msg_parentMessage doc of
           None \<Rightarrow>
             Inr ((message_cast doc)\<lparr>msg_threadId := Some (msg_id doc)\<rparr>,
                  db @ [(message_cast doc)\<lparr>msg_threadId := Some (msg_id doc)\<rparr>])
         | Some pid \<Rightarrow>
             (case message_findById db pid of
                None \<Rightarrow> Inl (HookError ''TypeError'')
              | Some parent \<Rightarrow>
                  Inr ((message_cast doc)\<lparr>msg_threadId :=
                          (if truthy (msg_threadId parent) then msg_threadId parent
                           else Some (msg_id parent))\<rparr>,
                       db @ [(message_cast doc)\<lparr>msg_threadId :=
                          (if truthy (msg_threadId parent) then msg_threadId parent
                           else Some (msg_id parent))\<rparr>])))) \<and>
   (replyMessage db userId userSession i body newId = ((201, Some reply), db2) \<longrightarrow>
      (case message_findById db i of
         None \<Rightarrow> False
       | Some original \<Rightarrow>
           msg_id original = i \<and>
           msg_parentMessage reply = Some i \<and>
           msg_threadId reply =
             (if truthy (msg_threadId original) then msg_threadId original else Some i) \<and>
           db2 = db @ [reply])) \<and>
   (reply_body_valid body \<and> message_findById db i = Some original \<and>
    (userId = msg_sender original \<or> userId = msg_recipient original) \<and>
    length (trim (''Re: '' @ msg_subject original)) \<le> 200 \<and>
    trim (the (rb_message body)) \<noteq> [] \<and> userSession \<noteq> None \<longrightarrow>
      replyMessage db userId userSession i body newId =
        ((201, Some
           \<lparr>msg_id = newId, msg_sender = userId,
            msg_recipient = (if userId = msg_sender original
                             then msg_recipient original else msg_sender original),
            msg_subject = trim (''Re: '' @ msg_subject original),
            msg_message = trim (the (rb_message body)),
            msg_priority =
              (if truthy (rb_priority body) then the (rb_priority body) else ''Normal''),
            msg_parentMessage = Some i,
            msg_threadId =
              (if truthy (msg_threadId original) then msg_threadId original else Some i),
            msg_session = userSession\<rparr>),
         db @
          [\<lparr>msg_id = newId, msg_sender = userId,
            msg_recipient = (if userId = msg_sender original
                             then msg_recipient original else msg_sender original),
            msg_subject = trim (''Re: '' @ msg_subject original),
            msg_message = trim (the (rb_message body)),
            msg_priority =
              (if truthy (rb_priority body) then the (rb_priority body) else ''Normal''),
            msg_parentMessage = Some i,
            msg_threadId =
              (if truthy (msg_threadId original) then msg_threadId original else Some i),
            msg_session = userSession\<rparr>]))"
proof (intro conjI impI)
  assume a: "message_create db doc = Inr (m, db1) \<and> \<not> truthy (msg_threadId doc)"
  then have ps: "message_pre_save db (message_cast doc) = Inr m"
    using message_create_Inr by blast
  from a have nt: "\<not> truthy (msg_threadId (message_cast doc))" by simp
  show "msg_id m = msg_id doc" using message_pre_save_fields[OF ps] by simp
  show "msg_parentMessage m = msg_parentMessage doc" using message_pre_save_fields[OF ps] by simp
  show "case msg_parentMessage doc of
         None \<Rightarrow> msg_threadId m = Some (msg_id doc)
       | Some pid \<Rightarrow>
           (case message_findById db pid of
              None \<Rightarrow> False
            | Some parent \<Rightarrow>
                msg_threadId m =
                  (if truthy (msg_threadId parent) then msg_threadId parent
                   else Some (msg_id parent)))"
  proof (cases "msg_parentMessage doc")
    case None
    then show ?thesis using message_pre_save_thread[OF ps] nt by simp
  next
    case (Some pid)
    then have "message_findById db pid \<noteq> None"
      using message_pre_save_parent_exists[OF ps nt] by simp
    then show ?thesis using message_pre_save_thread[OF ps] nt Some by auto
  qed
next
  assume a: "message_validate (message_cast doc) = Inr (message_cast doc) \<and>
    \<not> truthy (msg_threadId doc)"
  then have nt: "\<not> truthy (msg_threadId (message_cast doc))" by simp
  show "message_create db doc =
        (case msg_parentMessage doc of
           None \<Rightarrow>
             Inr ((message_cast doc)\<lparr>msg_threadId := Some (msg_id doc)\<rparr>,
                  db @ [(message_cast doc)\<lparr>msg_threadId := Some (msg_id doc)\<rparr>])
         | Some pid \<Rightarrow>
             (case message_findById db pid of
                None \<Rightarrow> Inl (HookError ''TypeError'')
              | Some parent \<Rightarrow>
                  Inr ((message_cast doc)\<lparr>msg_threadId :=
                          (if truthy (msg_threadId parent) then msg_threadId parent
                           else Some (msg_id parent))\<rparr>,
                       db @ [(message_cast doc)\<lparr>msg_threadId :=
                          (if truthy (msg_threadId parent) then msg_threadId parent
                           else Some (msg_id parent))\<rparr>])))"
    using a by (simp add: message_create_valid message_pre_save_no_thread[OF nt]
        split: option.splits)
next
  assume r: "replyMessage db userId userSession i body newId = ((201, Some reply), db2)"
  define doc where "doc = (\<lambda>original :: message.
       \<lparr>msg_id = newId, msg_sender = userId,
        msg_recipient = (if userId = msg_sender original
                         then msg_recipient original else msg_sender original),
        msg_subject = ''Re: '' @ msg_subject original,
        msg_message = the (rb_message body),
        msg_priority = (if truthy (rb_priority body) then the (rb_priority body) else ''Normal''),
        msg_parentMessage = Some (msg_id original),
        msg_threadId = msg_threadId original,
        msg_session = userSession\<rparr>)"
  from replyMessage_created[OF r] obtain original where
    f: "message_findById db i = Some original" and
    c: "message_create db (doc original) = Inr (reply, db2)"
    unfolding doc_def by blast
  have d: "msg_parentMessage (doc original) = Some (msg_id original)"
    "msg_threadId (doc original) = msg_threadId original"
    by (simp_all add: doc_def)
  have oid: "msg_id original = i" using f by (rule message_findById_id)
  have ps: "message_pre_save db (message_cast (doc original)) = Inr reply" and db2: "db2 = db @ [reply]"
    using message_create_Inr[OF c] by simp_all
  have par: "msg_parentMessage reply = Some i"
    using message_pre_save_fields[OF ps] d oid by simp
  have thr: "msg_threadId reply =
      (if truthy (msg_threadId original) then msg_threadId original else Some i)"
    using message_pre_save_thread[OF ps] d f oid by simp
  show "case message_findById db i of
         None \<Rightarrow> False
       | Some original \<Rightarrow>
           msg_id original = i \<and>
           msg_parentMessage reply = Some i \<and>
           msg_threadId reply =
             (if truthy (msg_threadId original) then msg_threadId original else Some i) \<and>
           db2 = db @ [reply]"
    using f oid par thr db2 by simp
next
  assume a: "reply_body_valid body \<and> message_findById db i = Some original \<and>
    (userId = msg_sender original \<or> userId = msg_recipient original) \<and>
    length (trim (''Re: '' @ msg_subject original)) \<le> 200 \<and>
    trim (the (rb_message body)) \<noteq> [] \<and> userSession \<noteq> None"
  show "replyMessage db userId userSession i body newId =
        ((201, Some
           \<lparr>msg_id = newId, msg_sender = userId,
            msg_recipient = (if userId = msg_sender original
                             then msg_recipient original else msg_sender original),
            msg_subject = trim (''Re: '' @ msg_subject original),
            msg_message = trim (the (rb_message body)),
            msg_priority =
              (if truthy (rb_priority body) then the (rb_priority body) else ''Normal''),
            msg_parentMessage = Some i,
            msg_threadId =
              (if truthy (msg_threadId original) then msg_threadId original else Some i),
            msg_session = userSession\<rparr>),
         db @
          [\<lparr>msg_id = newId, msg_sender = userId,
            msg_recipient = (if userId = msg_sender original
                             then msg_recipient original else msg_sender original),
            msg_subject = trim (''Re: '' @ msg_subject original),
            msg_message = trim (the (rb_message body)),
            msg_priority =
              (if truthy (rb_priority body) then the (rb_priority body) else ''Normal''),
            msg_parentMessage = Some i,
            msg_threadId =
              (if truthy (msg_threadId original) then msg_threadId original else Some i),
            msg_session = userSession\<rparr>])"
    using a by (intro replyMessage_success) simp_all
qed

text \<open>
  A conversation. The first message \<open>m1\<close> is created without a thread id and starts the
  thread \<open>m1\<close>. Its recipient replies through \<^verbatim>\<open>replyMessage\<close>: the reply \<open>m2\<close> has
  \<open>m1\<close> as its parent and is in the thread \<open>m1\<close>. A third message is created with
  \<open>m2\<close> as its parent and no thread id: the hook looks \<open>m2\<close> up and the message inherits
  the thread \<open>m1\<close>. A reply to an old message \<open>m0\<close> that carries no thread id gets the id
  of \<open>m0\<close> as its thread id. And a message whose parent is not in the collection is
  refused.
\<close>

theorem message_thread_id_witness:
  "message_create []
      \<lparr>msg_id = ''m1'', msg_sender = ''u1'', msg_recipient = ''u2'', msg_subject = '' Fees'',
        msg_message = ''Hello'', msg_priority = ''Normal'', msg_parentMessage = None,
        msg_threadId = None, msg_session = Some ''y1''\<rparr>
    = Inr (\<lparr>msg_id = ''m1'', msg_sender = ''u1'', msg_recipient = ''u2'', msg_subject = ''Fees'',
        msg_message = ''Hello'', msg_priority = ''Normal'', msg_parentMessage = None,
        msg_threadId = Some ''m1'', msg_session = Some ''y1''\<rparr>,
       [\<lparr>msg_id = ''m1'', msg_sender = ''u1'', msg_recipient = ''u2'', msg_subject = ''Fees'',
        msg_message = ''Hello'', msg_priority = ''Normal'', msg_parentMessage = None,
        msg_threadId = Some ''m1'', msg_session = Some ''y1''\<rparr>]) \<and>
   replyMessage
      [\<lparr>msg_id = ''m1'', msg_sender = ''u1'', msg_recipient = ''u2'', msg_subject = ''Fees'',
        msg_message = ''Hello'', msg_priority = ''Normal'', msg_parentMessage = None,
        msg_threadId = Some ''m1'', msg_session = Some ''y1''\<rparr>]
      ''u2'' (Some ''y1'') ''m1'' \<lparr>rb_message = Some ''Thanks'', rb_priority = None\<rparr> ''m2''
    = ((201, Some \<lparr>msg_id = ''m2'', msg_sender = ''u2'', msg_recipient = ''u1'',
          msg_subject = ''Re: Fees'', msg_message = ''Thanks'', msg_priority = ''Normal'',
          msg_parentMessage = Some ''m1'', msg_threadId = Some ''m1'',
          msg_session = Some ''y1''\<rparr>),
       [\<lparr>msg_id = ''m1'', msg_sender = ''u1'', msg_recipient = ''u2'', msg_subject = ''Fees'',
         msg_message = ''Hello'', msg_priority = ''Normal'', msg_parentMessage = None,
         msg_threadId = Some ''m1'', msg_session = Some ''y1''\<rparr>,
        \<lparr>msg_id = ''m2'', msg_sender = ''u2'', msg_recipient = ''u1'',
          msg_subject = ''Re: Fees'', msg_message = ''Thanks'', msg_priority = ''Normal'',
          msg_parentMessage = Some ''m1'', msg_threadId = Some ''m1'',
          msg_session = Some ''y1''\<rparr>]) \<and>
   (\<exists>db'. message_create
      [\<lparr>msg_id = ''m1'', msg_sender = ''u1'', msg_recipient = ''u2'', msg_subject = ''Fees'',
         msg_message = ''Hello'', msg_priority = ''Normal'', msg_parentMessage = None,
         msg_threadId = Some ''m1'', msg_session = Some ''y1''\<rparr>,
       \<lparr>msg_id = ''m2'', msg_sender = ''u2'', msg_recipient = ''u1'',
          msg_subject = ''Re: Fees'', msg_message = ''Thanks'', msg_priority = ''Normal'',
          msg_parentMessage = Some ''m1'', msg_threadId = Some ''m1'',
          msg_session = Some ''y1''\<rparr>]
      \<lparr>msg_id = ''m3'', msg_sender = ''u1'', msg_recipient = ''u2'', msg_subject = ''Receipt'',
        msg_message = ''Attached'', msg_priority = ''High'', msg_parentMessage = Some ''m2'',
        msg_threadId = None, msg_session = Some ''y1''\<rparr>
    = Inr (\<lparr>msg_id = ''m3'', msg_sender = ''u1'', msg_recipient = ''u2'',
        msg_subject = ''Receipt'', msg_message = ''Attached'', msg_priority = ''High'',
        msg_parentMessage = Some ''m2'', msg_threadId = Some ''m1'',
        msg_session = Some ''y1''\<rparr>, db')) \<and>
   (\<exists>db'. replyMessage
      [\<lparr>msg_id = ''m0'', msg_sender = ''u1'', msg_recipient = ''u2'', msg_subject = ''Old'',
        msg_message = ''Hello'', msg_priority = ''Normal'', msg_parentMessage = None,
        msg_threadId = None, msg_session = Some ''y1''\<rparr>]
      ''u1'' (Some ''y1'') ''m0'' \<lparr>rb_message = Some ''Again'', rb_priority = Some ''Low''\<rparr> ''m4''
    = ((201, Some \<lparr>msg_id = ''m4'', msg_sender = ''u1'', msg_recipient = ''u2'',
          msg_subject = ''Re: Old'', msg_message = ''Again'', msg_priority = ''Low'',
          msg_parentMessage = Some ''m0'', msg_threadId = Some ''m0'',
          msg_session = Some ''y1''\<rparr>), db')) \<and>
   message_create []
      \<lparr>msg_id = ''m5'', msg_sender = ''u1'', msg_recipient = ''u2'', msg_subject = ''Lost'',
        msg_message = ''Hello'', msg_priority = ''Normal'', msg_parentMessage = Some ''m9'',
        msg_threadId = None, msg_session = Some ''y1''\<rparr>
    = Inl (HookError ''TypeError'')"
proof -
  let ?d1 = "\<lparr>msg_id = ''m1'', msg_sender = ''u1'', msg_recipient = ''u2'', msg_subject = '' Fees'',
        msg_message = ''Hello'', msg_priority = ''Normal'', msg_parentMessage = None,
        msg_threadId = None, msg_session = Some ''y1''\<rparr>"
  let ?m1 = "\<lparr>msg_id = ''m1'', msg_sender = ''u1'', msg_recipient = ''u2'', msg_subject = ''Fees'',
        msg_message = ''Hello'', msg_priority = ''Normal'', msg_parentMessage = None,
        msg_threadId = Some ''m1'', msg_session = Some ''y1''\<rparr>"
  let ?m2 = "\<lparr>msg_id = ''m2'', msg_sender = ''u2'', msg_recipient = ''u1'',
          msg_subject = ''Re: Fees'', msg_message = ''Thanks'', msg_priority = ''Normal'',
          msg_parentMessage = Some ''m1'', msg_threadId = Some ''m1'',
          msg_session = Some ''y1''\<rparr>"
  let ?d3 = "\<lparr>msg_id = ''m3'', msg_sender = ''u1'', msg_recipient = ''u2'',
        msg_subject = ''Receipt'', msg_message = ''Attached'', msg_priority = ''High'',
        msg_parentMessage = Some ''m2'', msg_threadId = None, msg_session = Some ''y1''\<rparr>"
  let ?m0 = "\<lparr>msg_id = ''m0'', msg_sender = ''u1'', msg_recipient = ''u2'', msg_subject = ''Old'',
        msg_message = ''Hello'', msg_priority = ''Normal'', msg_parentMessage = None,
        msg_threadId = None, msg_session = Some ''y1''\<rparr>"
  let ?d5 = "\<lparr>msg_id = ''m5'', msg_sender = ''u1'', msg_recipient = ''u2'', msg_subject = ''Lost'',
        msg_message = ''Hello'', msg_priority = ''Normal'', msg_parentMessage = Some ''m9'',
        msg_threadId = None, msg_session = Some ''y1''\<rparr>"
  have t1: "trim '' Fees'' = ''Fees''" "trim ''Hello'' = ''Hello''" "trim ''Re: Fees'' = ''Re: Fees''"
    "trim ''Thanks'' = ''Thanks''" "trim ''Receipt'' = ''Receipt''"
    "trim ''Attached'' = ''Attached''" "trim ''Re: Old'' = ''Re: Old''"
    "trim ''Again'' = ''Again''" "trim ''Lost'' = ''Lost''"
    by code_simp+
  have v1: "message_validate (message_cast ?d1) = Inr (message_cast ?d1)"
    by (simp add: message_validate_def message_cast_def t1 priority_enum_def)
  have 1: "message_create [] ?d1 = Inr (?m1, [?m1])"
    using message_thread_id[where db = "[]" and doc = ?d1, THEN conjunct2, THEN conjunct1,
        rule_format, OF conjI, OF v1]
    by (simp add: message_cast_def t1)
  have 2: "replyMessage [?m1] ''u2'' (Some ''y1'') ''m1''
      \<lparr>rb_message = Some ''Thanks'', rb_priority = None\<rparr> ''m2'' = ((201, Some ?m2), [?m1, ?m2])"
    using message_thread_id[where db = "[?m1]" and userId = "''u2''"
        and userSession = "Some ''y1''" and i = "''m1''" and original = ?m1
        and body = "\<lparr>rb_message = Some ''Thanks'', rb_priority = None\<rparr>"
        and newId = "''m2''", THEN conjunct2, THEN conjunct2, THEN conjunct2, rule_format]
    by (simp add: message_findById_def reply_body_valid_def t1)
  have v3: "message_validate (message_cast ?d3) = Inr (message_cast ?d3)"
    by (simp add: message_validate_def message_cast_def t1 priority_enum_def)
  have 3: "\<exists>db'. message_create [?m1, ?m2] ?d3
     = Inr (\<lparr>msg_id = ''m3'', msg_sender = ''u1'', msg_recipient = ''u2'',
        msg_subject = ''Receipt'', msg_message = ''Attached'', msg_priority = ''High'',
        msg_parentMessage = Some ''m2'', msg_threadId = Some ''m1'',
        msg_session = Some ''y1''\<rparr>, db')"
    using message_thread_id[where db = "[?m1, ?m2]" and doc = ?d3, THEN conjunct2,
        THEN conjunct1, rule_format, OF conjI, OF v3]
    by (simp add: message_cast_def t1 message_findById_def)
  have 4: "\<exists>db'. replyMessage [?m0] ''u1'' (Some ''y1'') ''m0''
      \<lparr>rb_message = Some ''Again'', rb_priority = Some ''Low''\<rparr> ''m4''
    = ((201, Some \<lparr>msg_id = ''m4'', msg_sender = ''u1'', msg_recipient = ''u2'',
          msg_subject = ''Re: Old'', msg_message = ''Again'', msg_priority = ''Low'',
          msg_parentMessage = Some ''m0'', msg_threadId = Some ''m0'',
          msg_session = Some ''y1''\<rparr>), db')"
    using message_thread_id[where db = "[?m0]" and userId = "''u1''"
        and userSession = "Some ''y1''" and i = "''m0''" and original = ?m0
        and body = "\<lparr>rb_message = Some ''Again'', rb_priority = Some ''Low''\<rparr>"
        and newId = "''m4''", THEN conjunct2, THEN conjunct2, THEN conjunct2, rule_format]
    by (simp add: message_findById_def reply_body_valid_def priority_enum_def t1)
  have v5: "message_validate (message_cast ?d5) = Inr (message_cast ?d5)"
    by (simp add: message_validate_def message_cast_def t1 priority_enum_def)
  have 5: "message_create [] ?d5 = Inl (HookError ''TypeError'')"
    using message_thread_id[where db = "[]" and doc = ?d5, THEN conjunct2, THEN conjunct1,
        rule_format, OF conjI, OF v5]
    by (simp add: message_findById_def)
  from 1 2 3 4 5 show ?thesis by (intro conjI)
qed
section \<open>Properties of the active session\<close>

lemma active_alikeD:
  "active_alike db \<Longrightarrow> a \<in> set db \<Longrightarrow> b \<in> set db \<Longrightarrow> ses_isActive a \<Longrightarrow> ses_isActive b
     \<Longrightarrow> ses_id a = ses_id b"
  unfolding active_alike_def by blast

lemma active_alikeI:
  "(\<And>a b. a \<in> set db \<Longrightarrow> b \<in> set db \<Longrightarrow> ses_isActive a \<Longrightarrow> ses_isActive b
      \<Longrightarrow> ses_id a = ses_id b) \<Longrightarrow> active_alike db"
  unfolding active_alike_def by blast

lemma active_alike_Cons: "active_alike (x # xs) \<Longrightarrow> active_alike xs"
  by (rule active_alikeI) (blast dest: active_alikeD intro: list.set_intros)

lemma filter_le_one_unique:
  "length (filter Q xs) \<le> 1 \<Longrightarrow> a \<in> set xs \<Longrightarrow> b \<in> set xs \<Longrightarrow> Q a \<Longrightarrow> Q b \<Longrightarrow> a = b"
proof (induction xs)
  case Nil
  then show ?case by simp
next
  case (Cons x xs)
  show ?case
  proof (cases "Q x")
    case True
    with Cons.prems(1) have "filter Q xs = []" by simp
    then have none: "\<forall>y \<in> set xs. \<not> Q y" by (simp add: filter_empty_conv)
    from none Cons.prems(2,4) have "a = x" by (cases "a = x") simp_all
    moreover from none Cons.prems(3,5) have "b = x" by (cases "b = x") simp_all
    ultimately show ?thesis by simp
  next
    case False
    from False Cons.prems(1) have "length (filter Q xs) \<le> 1" by simp
    moreover from False Cons.prems(2,4) have "a \<in> set xs" by (cases "a = x") simp_all
    moreover from False Cons.prems(3,5) have "b \<in> set xs" by (cases "b = x") simp_all
    ultimately show ?thesis using Cons.IH Cons.prems(4,5) by blast
  qed
qed

lemma active_alike_of_count:
  assumes "length (filter ses_isActive db) \<le> 1"
  shows "active_alike db"
proof (rule active_alikeI)
  fix a b
  assume "a \<in> set db" "b \<in> set db" "ses_isActive a" "ses_isActive b"
  then have "a = b" using filter_le_one_unique[OF assms] by blast
  then show "ses_id a = ses_id b" by simp
qed

lemma count_of_active_alike:
  "distinct (map ses_id db) \<Longrightarrow> active_alike db \<Longrightarrow> length (filter ses_isActive db) \<le> 1"
proof (induction db)
  case Nil
  then show ?case by simp
next
  case (Cons x xs)
  from Cons.prems(2) have al: "active_alike xs" by (rule active_alike_Cons)
  from Cons.prems(1) have dist: "distinct (map ses_id xs)" and notin: "ses_id x \<notin> ses_id ` set xs"
    by simp_all
  show ?case
  proof (cases "ses_isActive x")
    case True
    have "\<not> ses_isActive y" if "y \<in> set xs" for y
    proof
      assume "ses_isActive y"
      with Cons.prems(2) True that have "ses_id x = ses_id y"
        using active_alikeD[of "x # xs" x y] by simp
      with notin that show False by (metis imageI)
    qed
    then have "filter ses_isActive xs = []" by (simp add: filter_empty_conv)
    with True show ?thesis by simp
  next
    case False
    with Cons.IH[OF dist al] show ?thesis by simp
  qed
qed

lemma session_findById_None:
  "session_findById db i = None \<longleftrightarrow> (\<forall>d \<in> set db. ses_id d \<noteq> i)"
  by (auto simp: session_findById_def find_None_iff)

lemma find_append_new: "find P xs = None \<Longrightarrow> P x \<Longrightarrow> find P (xs @ [x]) = Some x"
  by (induction xs) (auto split: if_splits)

lemma session_findById_Some: "session_findById db i = Some s \<Longrightarrow> s \<in> set db \<and> ses_id s = i"
  by (auto simp: session_findById_def find_Some_iff)

lemma deactivate_others_ids [simp]: "map ses_id (deactivate_others db i) = map ses_id db"
  by (induction db) (simp_all add: deactivate_others_def)

lemma deactivate_others_active:
  "d \<in> set (deactivate_others db i) \<Longrightarrow> ses_isActive d \<Longrightarrow> ses_id d = i \<and> d \<in> set db"
  by (auto simp: deactivate_others_def split: if_splits)

lemma deactivate_others_dates:
  "list_all (\<lambda>s. ses_endDate s > ses_startDate s) db \<Longrightarrow>
   list_all (\<lambda>s. ses_endDate s > ses_startDate s) (deactivate_others db i)"
  by (induction db) (simp_all add: deactivate_others_def)

lemma deactivate_others_findById:
  "session_findById (deactivate_others db i) i = session_findById db i"
  by (induction db) (simp_all add: deactivate_others_def session_findById_def)

lemma session_pre_save_active_ids [simp]:
  "map ses_id (session_pre_save_active db s t) = map ses_id db"
  by (simp add: session_pre_save_active_def)

lemma session_pre_save_active_dates:
  "list_all (\<lambda>s. ses_endDate s > ses_startDate s) db \<Longrightarrow>
   list_all (\<lambda>s. ses_endDate s > ses_startDate s) (session_pre_save_active db s t)"
  by (simp add: session_pre_save_active_def deactivate_others_dates)

lemma deactivate_others_alike: "active_alike (deactivate_others db i)"
  by (rule active_alikeI) (metis deactivate_others_active)

lemma session_pre_save_active_alike:
  "active_alike db \<Longrightarrow> active_alike (session_pre_save_active db s t)"
  by (simp add: session_pre_save_active_def deactivate_others_alike)

lemma session_pre_save_active_findById:
  "session_findById (session_pre_save_active db s t) (ses_id s) = session_findById db (ses_id s)"
  by (simp add: session_pre_save_active_def deactivate_others_findById)

text \<open>After the first hook, a session other than an active one being saved is inactive.\<close>

lemma session_pre_save_active_others:
  assumes "active_alike db" and "ses_isActive s"
    and "d \<in> set (session_pre_save_active db s t)" and "ses_id d \<noteq> ses_id s"
  shows "\<not> ses_isActive d"
proof (cases "isModified_isActive db s t")
  case True
  with assms(2,3,4) show ?thesis
    by (auto simp: session_pre_save_active_def dest: deactivate_others_active)
next
  case False
  then obtain old where old: "session_findById db (ses_id s) = Some old"
    and act: "ses_isActive old = ses_isActive s"
    by (auto simp: isModified_isActive_def split: option.splits)
  then have "old \<in> set db" "ses_id old = ses_id s" "ses_isActive old"
    using session_findById_Some[OF old] assms(2) by simp_all
  moreover from False assms(3) have "d \<in> set db" by (simp add: session_pre_save_active_def)
  ultimately show ?thesis using active_alikeD[OF assms(1), of d old] assms(4) by metis
qed

lemma session_write_set:
  assumes "session_write db s = Inr db'"
  shows "set db' \<subseteq> insert s {d \<in> set db. ses_id d \<noteq> ses_id s}"
  using assms
  by (auto simp: session_write_def session_findById_None split: if_splits option.splits)

lemma session_write_ids:
  assumes "session_write db s = Inr db'" and "distinct (map ses_id db)"
  shows "distinct (map ses_id db')"
proof (cases "session_findById db (ses_id s)")
  case None
  then have "db' = db @ [s]" using assms(1) by (auto simp: session_write_def split: if_splits)
  then show ?thesis using assms(2) None by (auto simp: session_findById_None)
next
  case (Some old)
  then have "db' = map (\<lambda>d. if ses_id d = ses_id s then s else d) db"
    using assms(1) by (auto simp: session_write_def split: if_splits)
  then have "map ses_id db' = map ses_id db" by (induction db arbitrary: db') auto
  then show ?thesis using assms(2) by simp
qed

lemma session_write_findById:
  assumes "session_write db s = Inr db'"
  shows "session_findById db' (ses_id s) = Some s"
proof (cases "session_findById db (ses_id s)")
  case None
  then have "db' = db @ [s]" using assms by (auto simp: session_write_def split: if_splits)
  then show ?thesis using None by (simp add: session_findById_def find_append_new)
next
  case (Some old)
  then have db': "db' = map (\<lambda>d. if ses_id d = ses_id s then s else d) db"
    using assms by (auto simp: session_write_def split: if_splits)
  from Some show ?thesis unfolding db' session_findById_def
    by (induction db) (auto split: if_splits)
qed

lemma session_save_cases:
  "session_save db doc t =
     (case session_validate (session_cast doc) of
        Inl e \<Rightarrow> (Inl e, db)
      | Inr s \<Rightarrow>
          if ses_endDate s \<le> ses_startDate s
          then (Inl (HookError ''End date must be after start date''),
                session_pre_save_active db s t)
          else (case session_write (session_pre_save_active db s t) s of
                  Inl e \<Rightarrow> (Inl e, session_pre_save_active db s t)
                | Inr db2 \<Rightarrow> (Inr s, db2)))"
  by (simp add: session_save_def session_pre_save_dates_def Let_def split: sum.splits)

lemma session_validate_Inr: "session_validate s = Inr s' \<Longrightarrow> s' = s"
  by (auto simp: session_validate_def split: if_splits)

lemma session_cast_fields [simp]:
  "ses_id (session_cast s) = ses_id s"
  "ses_startDate (session_cast s) = ses_startDate s"
  "ses_endDate (session_cast s) = ses_endDate s"
  "ses_isActive (session_cast s) = ses_isActive s"
  by (simp_all add: session_cast_def)

lemma sessions_ok_alt:
  "sessions_ok db \<longleftrightarrow>
     distinct (map ses_id db) \<and> active_alike db \<and>
     list_all (\<lambda>s. ses_endDate s > ses_startDate s) db"
  using active_alike_of_count count_of_active_alike by (auto simp: sessions_ok_def)

lemma sessions_ok_pre_save_active:
  "sessions_ok db \<Longrightarrow> sessions_ok (session_pre_save_active db s t)"
  by (simp add: sessions_ok_alt session_pre_save_active_alike session_pre_save_active_dates)

lemma sessions_ok_write:
  assumes ok: "sessions_ok db" and w: "session_write (session_pre_save_active db s t) s = Inr db2"
    and dates: "ses_startDate s < ses_endDate s"
  shows "sessions_ok db2 \<and>
     (ses_isActive s \<longrightarrow> (\<forall>d \<in> set db2. ses_id d \<noteq> ses_id s \<longrightarrow> \<not> ses_isActive d))"
proof -
  let ?db1 = "session_pre_save_active db s t"
  from ok have ok1: "sessions_ok ?db1" by (rule sessions_ok_pre_save_active)
  from ok have al: "active_alike db" by (simp add: sessions_ok_alt)
  have sub: "set db2 \<subseteq> insert s {d \<in> set ?db1. ses_id d \<noteq> ses_id s}"
    using session_write_set[OF w] .
  have others: "\<not> ses_isActive d" if "ses_isActive s" "d \<in> set db2" "ses_id d \<noteq> ses_id s" for d
  proof -
    from sub that(2,3) have "d \<in> set ?db1" by auto
    then show ?thesis using session_pre_save_active_others[OF al that(1) _ that(3)] by simp
  qed
  have dist: "distinct (map ses_id db2)"
    using session_write_ids[OF w] ok1 by (simp add: sessions_ok_alt)
  have alike: "active_alike db2"
  proof (rule active_alikeI)
    fix a b assume ab: "a \<in> set db2" "b \<in> set db2" "ses_isActive a" "ses_isActive b"
    show "ses_id a = ses_id b"
    proof (cases "ses_id a = ses_id s \<or> ses_id b = ses_id s")
      case True
      then show ?thesis
      proof
        assume "ses_id a = ses_id s"
        then have "a = s" using sub ab(1) by auto
        then show ?thesis using others[of b] ab(2,3,4) by metis
      next
        assume "ses_id b = ses_id s"
        then have "b = s" using sub ab(2) by auto
        then show ?thesis using others[of a] ab(1,3,4) by metis
      qed
    next
      case False
      then have "a \<in> set ?db1" "b \<in> set ?db1" using sub ab(1,2) by auto
      moreover from ok1 have "active_alike ?db1" by (simp add: sessions_ok_alt)
      ultimately show ?thesis using ab(3,4) by (metis active_alikeD)
    qed
  qed
  have "list_all (\<lambda>s. ses_endDate s > ses_startDate s) db2"
    using sub ok1 dates by (auto simp: sessions_ok_alt list_all_iff)
  then show ?thesis using dist alike others by (simp add: sessions_ok_alt)
qed

lemma session_save_ok:
  assumes "sessions_ok db"
  shows "sessions_ok (snd (session_save db doc t))"
proof (cases "session_validate (session_cast doc)")
  case (Inl e)
  then show ?thesis using assms by (simp add: session_save_cases)
next
  case (Inr s)
  show ?thesis
  proof (cases "ses_endDate s \<le> ses_startDate s")
    case True
    then show ?thesis using Inr assms by (simp add: session_save_cases sessions_ok_pre_save_active)
  next
    case False
    show ?thesis
    proof (cases "session_write (session_pre_save_active db s t) s")
      case (Inl e)
      then show ?thesis
        using Inr False assms by (simp add: session_save_cases sessions_ok_pre_save_active)
    next
      case (Inr db2)
      then show ?thesis
        using \<open>session_validate (session_cast doc) = Inr s\<close> False sessions_ok_write[OF assms Inr]
        by (simp add: session_save_cases)
    qed
  qed
qed

lemma session_saves_ok: "sessions_ok db \<Longrightarrow> sessions_ok (session_saves db docs)"
  by (induction db docs rule: session_saves.induct) (simp_all add: session_save_ok)

lemma session_save_Inr:
  assumes "sessions_ok db" and "session_save db doc t = (Inr s, db')"
  shows "ses_startDate s < ses_endDate s \<and>
     session_findById db' (ses_id doc) = Some s \<and>
     ses_isActive s = ses_isActive doc \<and>
     (ses_isActive doc \<longrightarrow> (\<forall>d \<in> set db'. ses_id d \<noteq> ses_id doc \<longrightarrow> \<not> ses_isActive d))"
proof -
  from assms(2) obtain s0 where v: "session_validate (session_cast doc) = Inr s0"
    by (auto simp: session_save_cases split: sum.splits)
  then have s0: "s0 = session_cast doc" by (rule session_validate_Inr)
  from assms(2) v have d: "ses_startDate s0 < ses_endDate s0"
    and w: "session_write (session_pre_save_active db s0 t) s0 = Inr db'" and s: "s = s0"
    by (auto simp: session_save_cases split: sum.splits if_splits)
  show ?thesis
    using sessions_ok_write[OF assms(1) w d] session_write_findById[OF w] s s0 d by simp
qed

lemma session_save_dates_rejected:
  assumes "ses_endDate doc \<le> ses_startDate doc"
  shows "\<exists>e. fst (session_save db doc t) = Inl e"
  using assms by (auto simp: session_save_cases split: sum.splits dest: session_validate_Inr)

text \<open>
  Claim C8. On a collection with distinct ids, at most one active session and every end
  date after its start date, every save, accepted or rejected, leaves such a collection,
  and so does every run of saves, from the empty collection too. An accepted save stores
  the document with its end date after its start date, and when the document is active
  every other session of the collection is inactive afterwards. A document whose end date
  is not after its start date is rejected with an error.
\<close>

theorem session_single_active:
  assumes "sessions_ok db"
  shows "sessions_ok (snd (session_save db doc touched)) \<and>
     sessions_ok (session_saves db docs) \<and>
     sessions_ok (session_saves [] docs) \<and>
     (case fst (session_save db doc touched) of
        Inl e \<Rightarrow> True
      | Inr s \<Rightarrow>
          ses_startDate s < ses_endDate s \<and>
          session_findById (snd (session_save db doc touched)) (ses_id doc) = Some s \<and>
          ses_isActive s = ses_isActive doc \<and>
          (ses_isActive doc \<longrightarrow>
             (\<forall>d \<in> set (snd (session_save db doc touched)).
                ses_id d \<noteq> ses_id doc \<longrightarrow> \<not> ses_isActive d))) \<and>
     (ses_endDate doc \<le> ses_startDate doc \<longrightarrow>
        (\<exists>e. fst (session_save db doc touched) = Inl e))"
proof -
  have e: "sessions_ok []" by (simp add: sessions_ok_def)
  have c: "case fst (session_save db doc touched) of
        Inl e \<Rightarrow> True
      | Inr s \<Rightarrow>
          ses_startDate s < ses_endDate s \<and>
          session_findById (snd (session_save db doc touched)) (ses_id doc) = Some s \<and>
          ses_isActive s = ses_isActive doc \<and>
          (ses_isActive doc \<longrightarrow>
             (\<forall>d \<in> set (snd (session_save db doc touched)).
                ses_id d \<noteq> ses_id doc \<longrightarrow> \<not> ses_isActive d))"
  proof (cases "fst (session_save db doc touched)")
    case (Inl a)
    then show ?thesis by simp
  next
    case (Inr s)
    then have "session_save db doc touched = (Inr s, snd (session_save db doc touched))"
      by (metis prod.collapse)
    from session_save_Inr[OF assms this] Inr show ?thesis by simp
  qed
  show ?thesis
    using session_save_ok[OF assms] session_saves_ok[OF assms] session_saves_ok[OF e] c
      session_save_dates_rejected[of doc db touched]
    by blast
qed


text \<open>
  The session 2024-2025 is created active while 2023-2024 is the active session: the new
  session is stored and the old one is deactivated.
\<close>

theorem session_single_active_witness:
  "sessions_ok
      [\<lparr>ses_id = ''y1'', ses_name = ''2023-2024'', ses_startDate = 1680307200000,
        ses_endDate = 1711843200000, ses_isActive = True\<rparr>] \<and>
   session_save
      [\<lparr>ses_id = ''y1'', ses_name = ''2023-2024'', ses_startDate = 1680307200000,
        ses_endDate = 1711843200000, ses_isActive = True\<rparr>]
      \<lparr>ses_id = ''y2'', ses_name = ''2024-2025'', ses_startDate = 1711929600000,
        ses_endDate = 1743379200000, ses_isActive = True\<rparr> False
    = (Inr \<lparr>ses_id = ''y2'', ses_name = ''2024-2025'', ses_startDate = 1711929600000,
        ses_endDate = 1743379200000, ses_isActive = True\<rparr>,
       [\<lparr>ses_id = ''y1'', ses_name = ''2023-2024'', ses_startDate = 1680307200000,
        ses_endDate = 1711843200000, ses_isActive = False\<rparr>,
        \<lparr>ses_id = ''y2'', ses_name = ''2024-2025'', ses_startDate = 1711929600000,
        ses_endDate = 1743379200000, ses_isActive = True\<rparr>]) \<and>
   sessions_ok
      [\<lparr>ses_id = ''y1'', ses_name = ''2023-2024'', ses_startDate = 1680307200000,
        ses_endDate = 1711843200000, ses_isActive = False\<rparr>,
       \<lparr>ses_id = ''y2'', ses_name = ''2024-2025'', ses_startDate = 1711929600000,
        ses_endDate = 1743379200000, ses_isActive = True\<rparr>]"
proof -
  let ?s1 = "\<lparr>ses_id = ''y1'', ses_name = ''2023-2024'', ses_startDate = 1680307200000,
        ses_endDate = 1711843200000, ses_isActive = True\<rparr>"
  let ?s1' = "\<lparr>ses_id = ''y1'', ses_name = ''2023-2024'', ses_startDate = 1680307200000,
        ses_endDate = 1711843200000, ses_isActive = False\<rparr>"
  let ?s2 = "\<lparr>ses_id = ''y2'', ses_name = ''2024-2025'', ses_startDate = 1711929600000,
        ses_endDate = 1743379200000, ses_isActive = True\<rparr>"
  have h: "sessions_ok [?s1]" by (simp add: sessions_ok_def)
  have r: "session_save [?s1] ?s2 False = (Inr ?s2, [?s1', ?s2])" by code_simp
  have "sessions_ok (snd (session_save [?s1] ?s2 False))"
    using session_single_active[OF h, of ?s2 False "[]"] by blast
  then have k: "sessions_ok [?s1', ?s2]" by (simp only: r snd_conv)
  from h r k show ?thesis by (intro conjI)
qed

end
